theory Spec2Isabelle
  imports Complex_Main "HOL-Library.Multiset"
begin

section \<open>Numbers, errors and tables\<close>

text \<open>
  The scripts compute on pandas columns of IEEE doubles. A value is either undefined
  (\<open>NaN\<close>, which pandas also uses for a missing cell) or a number. Numbers are taken
  as exact reals: rounding of the binary representation and the infinities are outside
  this development. The operations below follow numpy and Python on the undefined value:
  arithmetic propagates it, every comparison with it is false.
\<close>

datatype pyfloat = NaN | Fin real

datatype pyerr = IndexError | ValueError | OverflowError

fun isna :: "pyfloat \<Rightarrow> bool" where
  "isna NaN = True"
| "isna (Fin x) = False"

fun fadd :: "pyfloat \<Rightarrow> pyfloat \<Rightarrow> pyfloat" where
  "fadd (Fin a) (Fin b) = Fin (a + b)"
| "fadd _ _ = NaN"

fun fsub :: "pyfloat \<Rightarrow> pyfloat \<Rightarrow> pyfloat" where
  "fsub (Fin a) (Fin b) = Fin (a - b)"
| "fsub _ _ = NaN"

fun fmul :: "pyfloat \<Rightarrow> pyfloat \<Rightarrow> pyfloat" where
  "fmul (Fin a) (Fin b) = Fin (a * b)"
| "fmul _ _ = NaN"

text \<open>
  Division is only used with the divisors 50, 30 and a price already checked to be
  positive or undefined; a zero divisor (an infinity or NaN in numpy) is given as
  undefined.
\<close>

fun fdiv :: "pyfloat \<Rightarrow> pyfloat \<Rightarrow> pyfloat" where
  "fdiv (Fin a) (Fin b) = (if b = 0 then NaN else Fin (a / b))"
| "fdiv _ _ = NaN"

fun fabs :: "pyfloat \<Rightarrow> pyfloat" where
  "fabs (Fin a) = Fin \<bar>a\<bar>"
| "fabs NaN = NaN"

text \<open>\<open>np.maximum\<close>: the element-wise maximum, undefined when either side is.\<close>

fun fmaximum :: "pyfloat \<Rightarrow> pyfloat \<Rightarrow> pyfloat" where
  "fmaximum (Fin a) (Fin b) = Fin (max a b)"
| "fmaximum _ _ = NaN"

fun flt :: "pyfloat \<Rightarrow> pyfloat \<Rightarrow> bool" where
  "flt (Fin a) (Fin b) = (a < b)"
| "flt _ _ = False"

fun fle :: "pyfloat \<Rightarrow> pyfloat \<Rightarrow> bool" where
  "fle (Fin a) (Fin b) = (a \<le> b)"
| "fle _ _ = False"

definition fgt :: "pyfloat \<Rightarrow> pyfloat \<Rightarrow> bool" where
  "fgt a b = flt b a"

text \<open>
  Python's built-in \<open>min(a, b)\<close> and \<open>max(a, b)\<close> keep the first argument unless
  the second is strictly smaller (larger), so an undefined first argument is returned
  and an undefined second argument is dropped.
\<close>

definition py_min :: "pyfloat \<Rightarrow> pyfloat \<Rightarrow> pyfloat" where
  "py_min a b = (if flt b a then b else a)"

definition py_max :: "pyfloat \<Rightarrow> pyfloat \<Rightarrow> pyfloat" where
  "py_max a b = (if fgt b a then b else a)"

text \<open>\<open>round(x, n)\<close>: to \<open>n\<close> decimals, a tie going to the even neighbour.\<close>

definition round_half_even :: "real \<Rightarrow> int" where
  "round_half_even x =
     (let f = \<lfloor>x\<rfloor>; d = x - of_int f
      in if d < 1 / 2 then f else if 1 / 2 < d then f + 1
         else if even f then f else f + 1)"

fun py_round :: "nat \<Rightarrow> pyfloat \<Rightarrow> pyfloat" where
  "py_round n NaN = NaN"
| "py_round n (Fin x) = Fin (of_int (round_half_even (x * 10 ^ n)) / 10 ^ n)"

text \<open>
  One row of the provider's table: the date that indexes it (a day number) and the
  columns the three scripts read. Each script's \<open>get_etf_data\<close> calls the market-data
  provider and returns the table, or \<open>None\<close> when the download or a column lookup
  fails; it is a parameter of the functions below.
\<close>

record bar =
  date :: nat
  high :: pyfloat
  low :: pyfloat
  close :: pyfloat
  volume :: pyfloat

type_synonym series = "(nat \<times> pyfloat) list"

definition column :: "(bar \<Rightarrow> pyfloat) \<Rightarrow> bar list \<Rightarrow> series" where
  "column f df = map (\<lambda>r. (date r, f r)) df"

definition tail :: "nat \<Rightarrow> 'a list \<Rightarrow> 'a list" where
  "tail n xs = drop (length xs - n) xs"

fun finite_values :: "pyfloat list \<Rightarrow> real list" where
  "finite_values [] = []"
| "finite_values (NaN # xs) = finite_values xs"
| "finite_values (Fin v # xs) = v # finite_values xs"

section \<open>position\_management.py\<close>

definition MAX_LOSS_PER_ETF :: real where
  "MAX_LOSS_PER_ETF = 150"

definition ATR_PERIOD :: nat where
  "ATR_PERIOD = 14"

definition ATR_MULTIPLIER :: real where
  "ATR_MULTIPLIER = 2"

text \<open>\<open>Series.shift(1)\<close>: every value moves one row down, the first row is undefined.\<close>

definition shift1 :: "pyfloat list \<Rightarrow> pyfloat list" where
  "shift1 xs = (if xs = [] then [] else NaN # butlast xs)"

text \<open>The column \<open>df['tr']\<close>.\<close>

definition true_range :: "bar list \<Rightarrow> pyfloat list" where
  "true_range df =
     map (\<lambda>(r, prev_close).
            fmaximum (fsub (high r) (low r))
              (fmaximum (fabs (fsub (high r) prev_close)) (fabs (fsub (low r) prev_close))))
         (zip df (shift1 (map close df)))"

text \<open>\<open>Series.mean()\<close> skips undefined values and is undefined when none is left.\<close>

definition nanmean :: "pyfloat list \<Rightarrow> pyfloat" where
  "nanmean xs =
     (let vs = finite_values xs
      in if vs = [] then NaN else Fin (sum_list vs / real (length vs)))"

text \<open>
  \<open>int(a // b)\<close> for a number \<open>a\<close> and a numpy double \<open>b\<close>. Floor division by zero
  gives an infinity (NaN in older numpy) and a warning, and \<open>int\<close> raises on either;
  the undefined value raises as well.
\<close>

fun int_floordiv :: "real \<Rightarrow> pyfloat \<Rightarrow> pyerr + int" where
  "int_floordiv a NaN = Inl ValueError"
| "int_floordiv a (Fin b) = (if b = 0 then Inl OverflowError else Inr \<lfloor>a / b\<rfloor>)"

record position =
  pos_etf_code :: string
  latest_price :: pyfloat
  atr_value :: pyfloat
  suggested_quantity :: int
  stop_loss_percent :: pyfloat
  max_loss_amount :: pyfloat

definition latest_atr :: "bar list \<Rightarrow> pyfloat" where
  "latest_atr df = nanmean (tail ATR_PERIOD (true_range df))"

text \<open>
  The body runs under \<open>try\<close> with \<open>except Exception: return None\<close>, so the raising
  conversion ends in \<open>None\<close> like the explicit guards.
\<close>

definition calculate_position :: "(string \<Rightarrow> bar list option) \<Rightarrow> string \<Rightarrow> position option" where
  "calculate_position get_etf_data etf_code =
     (case get_etf_data etf_code of
        None \<Rightarrow> None
      | Some df \<Rightarrow>
          if length df < ATR_PERIOD then None
          else
            let atr = latest_atr df;
                current_price = close (last df)
            in if isna atr \<or> fle current_price (Fin 0) then None
               else
                 let risk = fmul (Fin ATR_MULTIPLIER) atr;
                     stop_loss_pct = fmul (fdiv risk current_price) (Fin 100)
                 in (case int_floordiv MAX_LOSS_PER_ETF risk of
                       Inl e \<Rightarrow> None
                     | Inr q \<Rightarrow>
                         let quantity = max 100 ((q div 100) * 100)
                         in Some \<lparr>pos_etf_code = etf_code,
                                  latest_price = py_round 3 current_price,
                                  atr_value = py_round 3 atr,
                                  suggested_quantity = quantity,
                                  stop_loss_percent = py_round 2 stop_loss_pct,
                                  max_loss_amount = py_round 2 (fmul risk (Fin (of_int quantity)))\<rparr>))"

section \<open>etf\_risk\_monitor.py\<close>

definition RSI_PERIOD :: nat where
  "RSI_PERIOD = 14"

definition EMA_SHORT :: nat where
  "EMA_SHORT = 12"

definition EMA_LONG :: nat where
  "EMA_LONG = 26"

text \<open>
  \<open>Series.idxmax()\<close>: the index label of the largest defined value, the first one
  when several rows hold it; a series without a defined value raises. The scan keeps
  the best row so far and replaces it only by a strictly larger value.
\<close>

fun argmax_scan :: "(nat \<times> real) option \<Rightarrow> series \<Rightarrow> (nat \<times> real) option" where
  "argmax_scan best [] = best"
| "argmax_scan best ((d, NaN) # s) = argmax_scan best s"
| "argmax_scan None ((d, Fin v) # s) = argmax_scan (Some (d, v)) s"
| "argmax_scan (Some (bd, bv)) ((d, Fin v) # s) =
     argmax_scan (if bv < v then Some (d, v) else Some (bd, bv)) s"

definition idxmax :: "series \<Rightarrow> pyerr + nat" where
  "idxmax s = (case argmax_scan None s of None \<Rightarrow> Inl ValueError | Some (d, v) \<Rightarrow> Inr d)"

text \<open>\<open>s.index[-1]\<close> and \<open>s.iloc[-k]\<close>, which raise on a series that is too short.\<close>

definition index_last :: "series \<Rightarrow> pyerr + nat" where
  "index_last s = (if s = [] then Inl IndexError else Inr (fst (last s)))"

definition iloc_back :: "series \<Rightarrow> nat \<Rightarrow> pyerr + pyfloat" where
  "iloc_back s k =
     (if 0 < k \<and> k \<le> length s then Inr (snd (s ! (length s - k))) else Inl IndexError)"

text \<open>
  The indicators come from the \<open>ta\<close> library, which is not part of the repository:
  \<open>RSIIndicator(close, window).rsi()\<close>, \<open>OnBalanceVolumeIndicator(close,
  volume).on_balance_volume()\<close> and \<open>EMAIndicator(close, window).ema_indicator()\<close>
  are parameters of the checks. The checks have no handler, so an exception leaves
  them as it is raised. Python's \<open>and\<close> evaluates its right operand only when the
  left one holds.
\<close>

definition check_rsi_divergence :: "(series \<Rightarrow> nat \<Rightarrow> series) \<Rightarrow> bar list \<Rightarrow> pyerr + bool" where
  "check_rsi_divergence RSIIndicator df =
     (if length df < RSI_PERIOD + 5 then Inr False
      else
        let rsi = RSIIndicator (column close df) RSI_PERIOD;
            last_5 = tail 5 (column close df);
            last_5_rsi = tail 5 rsi
        in case idxmax last_5 of Inl e \<Rightarrow> Inl e | Inr price_peak \<Rightarrow>
           case index_last last_5 of Inl e \<Rightarrow> Inl e | Inr price_end \<Rightarrow>
           if price_peak = price_end
           then (case idxmax last_5_rsi of Inl e \<Rightarrow> Inl e | Inr rsi_peak \<Rightarrow>
                 case index_last last_5_rsi of Inl e \<Rightarrow> Inl e | Inr rsi_end \<Rightarrow>
                 Inr (rsi_peak \<noteq> rsi_end))
           else Inr False)"

definition check_obv_divergence :: "(series \<Rightarrow> series \<Rightarrow> series) \<Rightarrow> bar list \<Rightarrow> pyerr + bool" where
  "check_obv_divergence OnBalanceVolumeIndicator df =
     (if length df < 10 then Inr False
      else
        let obv = OnBalanceVolumeIndicator (column close df) (column volume df);
            last_5_close = tail 5 (column close df);
            last_5_obv = tail 5 obv
        in case idxmax last_5_close of Inl e \<Rightarrow> Inl e | Inr price_peak \<Rightarrow>
           case index_last last_5_close of Inl e \<Rightarrow> Inl e | Inr price_end \<Rightarrow>
           if price_peak = price_end
           then (case idxmax last_5_obv of Inl e \<Rightarrow> Inl e | Inr obv_peak \<Rightarrow>
                 case index_last last_5_obv of Inl e \<Rightarrow> Inl e | Inr obv_end \<Rightarrow>
                 Inr (obv_peak \<noteq> obv_end))
           else Inr False)"

definition check_ema_death_cross :: "(series \<Rightarrow> nat \<Rightarrow> series) \<Rightarrow> bar list \<Rightarrow> pyerr + bool" where
  "check_ema_death_cross EMAIndicator df =
     (if length df < EMA_LONG + 1 then Inr False
      else
        let ema_short = EMAIndicator (column close df) EMA_SHORT;
            ema_long = EMAIndicator (column close df) EMA_LONG
        in case iloc_back ema_short 2 of Inl e \<Rightarrow> Inl e | Inr short_prev \<Rightarrow>
           case iloc_back ema_long 2 of Inl e \<Rightarrow> Inl e | Inr long_prev \<Rightarrow>
           if fgt short_prev long_prev
           then (case iloc_back ema_short 1 of Inl e \<Rightarrow> Inl e | Inr short_now \<Rightarrow>
                 case iloc_back ema_long 1 of Inl e \<Rightarrow> Inl e | Inr long_now \<Rightarrow>
                 Inr (flt short_now long_now))
           else Inr False)"

section \<open>etf\_trend\_evaluation.py\<close>

text \<open>
  \<open>Series.ewm(alpha, adjust=False).mean()\<close> with pandas' defaults: the first defined
  value seeds the average, each later defined value \<open>x\<close> turns the average \<open>y\<close> into
  \<open>(1 - alpha) * y + alpha * x\<close>, and an undefined value repeats the average and ages
  its weight by \<open>1 - alpha\<close> before the next update. \<open>ewm_scan\<close> holds the average
  reached and the weight of the old average, writes the average for the current row
  and moves on with the next value.
\<close>

fun ewm_scan :: "real \<Rightarrow> pyfloat \<Rightarrow> real \<Rightarrow> pyfloat list \<Rightarrow> pyfloat list" where
  "ewm_scan \<alpha> weighted old_wt [] = [weighted]"
| "ewm_scan \<alpha> NaN old_wt (cur # xs) = NaN # ewm_scan \<alpha> cur old_wt xs"
| "ewm_scan \<alpha> (Fin w) old_wt (NaN # xs) = Fin w # ewm_scan \<alpha> (Fin w) (old_wt * (1 - \<alpha>)) xs"
| "ewm_scan \<alpha> (Fin w) old_wt (Fin cur # xs) =
     Fin w #
     ewm_scan \<alpha> (Fin ((old_wt * (1 - \<alpha>) * w + \<alpha> * cur) / (old_wt * (1 - \<alpha>) + \<alpha>))) 1 xs"

definition ewm_mean :: "real \<Rightarrow> series \<Rightarrow> series" where
  "ewm_mean \<alpha> s =
     (case s of [] \<Rightarrow> []
      | (d, x) # rest \<Rightarrow> zip (map fst s) (ewm_scan \<alpha> x 1 (map snd rest)))"

definition ewm_span :: "nat \<Rightarrow> series \<Rightarrow> series" where
  "ewm_span n s = ewm_mean (2 / (real n + 1)) s"

text \<open>
  The table after \<open>calculate_technical_indicators\<close>: the provider's columns and the four
  indicator columns. Assigning a series to a column aligns it on the index: a row whose
  date the series does not carry gets an undefined cell.
\<close>

record ind_bar = bar +
  ADX :: pyfloat
  MACD_DIF :: pyfloat
  MACD_DEA :: pyfloat
  RSI :: pyfloat

definition cell :: "series \<Rightarrow> nat \<Rightarrow> pyfloat" where
  "cell s d = (case map_of s d of None \<Rightarrow> NaN | Some x \<Rightarrow> x)"

definition series_sub :: "series \<Rightarrow> series \<Rightarrow> series" where
  "series_sub a b = map (\<lambda>(p, q). (fst p, fsub (snd p) (snd q))) (zip a b)"

text \<open>
  \<open>ADXIndicator(high, low, close, window).adx()\<close> and \<open>RSIIndicator(close,
  window).rsi()\<close> are the \<open>ta\<close> library's and parameters here.
\<close>

definition calculate_technical_indicators ::
  "(series \<Rightarrow> series \<Rightarrow> series \<Rightarrow> nat \<Rightarrow> series) \<Rightarrow> (series \<Rightarrow> nat \<Rightarrow> series) \<Rightarrow>
   bar list option \<Rightarrow> ind_bar list option" where
  "calculate_technical_indicators ADXIndicator RSIIndicator df =
     (case df of
        None \<Rightarrow> None
      | Some rows \<Rightarrow>
          if length rows < 30 then None
          else
            let adx = ADXIndicator (column high rows) (column low rows) (column close rows) 14;
                dif = series_sub (ewm_span 12 (column close rows)) (ewm_span 26 (column close rows));
                dea = ewm_span 9 dif;
                rsi = RSIIndicator (column close rows) 14
            in Some (map (\<lambda>r. \<lparr>date = date r, high = high r, low = low r, close = close r,
                                 volume = volume r, ADX = cell adx (date r),
                                 MACD_DIF = cell dif (date r), MACD_DEA = cell dea (date r),
                                 RSI = cell rsi (date r)\<rparr>) rows))"

text \<open>
  One line of the result table. The MACD column holds the text for yes or no in the
  script and a truth value here.
\<close>

record evaluation =
  eval_etf_code :: string
  adx_value :: pyfloat
  macd_golden_cross :: bool
  rsi_value :: pyfloat
  trend_score :: pyfloat

definition adx_score :: "pyfloat \<Rightarrow> pyfloat" where
  "adx_score adx = fmul (fdiv (py_min adx (Fin 50)) (Fin 50)) (Fin 100)"

definition macd_score :: "bool \<Rightarrow> pyfloat" where
  "macd_score macd_status = (if macd_status then Fin 100 else Fin 0)"

definition rsi_score :: "pyfloat \<Rightarrow> pyfloat" where
  "rsi_score rsi = py_max (Fin 0) (fmul (fdiv (fsub rsi (Fin 50)) (Fin 30)) (Fin 100))"

definition total_score :: "pyfloat \<Rightarrow> bool \<Rightarrow> pyfloat \<Rightarrow> pyfloat" where
  "total_score adx macd_status rsi =
     fadd (fadd (fmul (adx_score adx) (Fin (4 / 10))) (fmul (macd_score macd_status) (Fin (3 / 10))))
          (fmul (rsi_score rsi) (Fin (3 / 10)))"

definition evaluate_trend :: "ind_bar list option \<Rightarrow> string \<Rightarrow> evaluation option" where
  "evaluate_trend df code =
     (case df of
        None \<Rightarrow> None
      | Some rows \<Rightarrow>
          if length rows < 30 then None
          else
            let latest = last rows;
                adx = ADX latest;
                macd_status = (fgt (MACD_DIF latest) (Fin 0) \<and> fgt (MACD_DEA latest) (Fin 0));
                rsi = RSI latest
            in Some \<lparr>eval_etf_code = code,
                     adx_value = py_round 2 adx,
                     macd_golden_cross = macd_status,
                     rsi_value = py_round 2 rsi,
                     trend_score = py_round 1 (total_score adx macd_status rsi)\<rparr>)"

text \<open>
  \<open>sort_values(score, ascending=False)\<close>: larger scores first, undefined scores last.
  pandas' default algorithm leaves the order among equal scores open; the insertion
  below keeps them in their order of arrival.
\<close>

definition ranks_before :: "pyfloat \<Rightarrow> pyfloat \<Rightarrow> bool" where
  "ranks_before a b =
     (case b of NaN \<Rightarrow> True | Fin y \<Rightarrow> (case a of NaN \<Rightarrow> False | Fin x \<Rightarrow> y \<le> x))"

fun insert_desc :: "evaluation \<Rightarrow> evaluation list \<Rightarrow> evaluation list" where
  "insert_desc e [] = [e]"
| "insert_desc e (x # xs) =
     (if ranks_before (trend_score e) (trend_score x) then e # x # xs
      else x # insert_desc e xs)"

fun sort_values_desc :: "evaluation list \<Rightarrow> evaluation list" where
  "sort_values_desc [] = []"
| "sort_values_desc (e # es) = insert_desc e (sort_values_desc es)"

text \<open>
  The loop of \<open>evaluate_multiple_etfs\<close> over the codes, with the results collected so
  far. After a successful download the script prints the table's first and last date,
  \<open>etf_data.index[0]\<close> and \<open>etf_data.index[-1]\<close>, before anything checks the length:
  on a table without rows this raises, and nothing in the function or in \<open>main\<close>
  catches it.
\<close>

fun collect_evaluations ::
  "(string \<Rightarrow> bar list option) \<Rightarrow> (series \<Rightarrow> series \<Rightarrow> series \<Rightarrow> nat \<Rightarrow> series) \<Rightarrow>
   (series \<Rightarrow> nat \<Rightarrow> series) \<Rightarrow> string list \<Rightarrow> evaluation list \<Rightarrow> pyerr + evaluation list" where
  "collect_evaluations get_etf_data ADXIndicator RSIIndicator [] results = Inr results"
| "collect_evaluations get_etf_data ADXIndicator RSIIndicator (code # rest) results =
     (case get_etf_data code of
        None \<Rightarrow> collect_evaluations get_etf_data ADXIndicator RSIIndicator rest results
      | Some etf_data \<Rightarrow>
          if etf_data = [] then Inl IndexError
          else
            (case calculate_technical_indicators ADXIndicator RSIIndicator (Some etf_data) of
               None \<Rightarrow> collect_evaluations get_etf_data ADXIndicator RSIIndicator rest results
             | Some with_indicators \<Rightarrow>
                 (case evaluate_trend (Some with_indicators) code of
                    None \<Rightarrow>
                      collect_evaluations get_etf_data ADXIndicator RSIIndicator rest results
                  | Some evaluation \<Rightarrow>
                      collect_evaluations get_etf_data ADXIndicator RSIIndicator rest
                        (results @ [evaluation]))))"

definition evaluate_multiple_etfs ::
  "(string \<Rightarrow> bar list option) \<Rightarrow> (series \<Rightarrow> series \<Rightarrow> series \<Rightarrow> nat \<Rightarrow> series) \<Rightarrow>
   (series \<Rightarrow> nat \<Rightarrow> series) \<Rightarrow> string list \<Rightarrow> pyerr + evaluation list option" where
  "evaluate_multiple_etfs get_etf_data ADXIndicator RSIIndicator etf_codes =
     (case collect_evaluations get_etf_data ADXIndicator RSIIndicator etf_codes [] of
        Inl e \<Rightarrow> Inl e
      | Inr results \<Rightarrow> Inr (if results = [] then None else Some (sort_values_desc results)))"

section \<open>Reference readings and sample tables\<close>

text \<open>
  The definitions of this section are not part of the scripts: they restate, over plain
  reals and dates, what the properties below compare the scripts with, and give the
  sample tables the properties are evaluated on.
\<close>

fun value_of :: "pyfloat \<Rightarrow> real" where
  "value_of (Fin x) = x"
| "value_of NaN = 0"

definition finite_bar :: "bar \<Rightarrow> bool" where
  "finite_bar r = (\<not> isna (high r) \<and> \<not> isna (low r) \<and> \<not> isna (close r))"

text \<open>The true range of row \<open>i\<close> (\<open>0 < i\<close>) of a table of defined prices.\<close>

definition tr_at :: "bar list \<Rightarrow> nat \<Rightarrow> real" where
  "tr_at df i =
     (let h = value_of (high (df ! i)); l = value_of (low (df ! i));
          pc = value_of (close (df ! (i - 1)))
      in max (h - l) (max \<bar>h - pc\<bar> \<bar>l - pc\<bar>))"

text \<open>
  \<open>steady_market n p w\<close>: \<open>n\<close> days closing at \<open>p\<close> with a daily range of \<open>w\<close>
  on either side; \<open>rising_market n\<close>: \<open>n\<close> days, each closing one unit higher.
\<close>

definition steady_market :: "nat \<Rightarrow> real \<Rightarrow> real \<Rightarrow> bar list" where
  "steady_market n p w =
     map (\<lambda>i. \<lparr>date = i, high = Fin (p + w), low = Fin (p - w), close = Fin p,
               volume = Fin 1000\<rparr>) [0..<n]"

definition rising_market :: "nat \<Rightarrow> bar list" where
  "rising_market n =
     map (\<lambda>i. \<lparr>date = i, high = Fin (real i + 11), low = Fin (real i + 9),
               close = Fin (real i + 10), volume = Fin 1000\<rparr>) [0..<n]"

text \<open>\<open>gapped_market\<close>: fourteen rising days, the high of the sixth day missing.\<close>

definition gapped_market :: "bar list" where
  "gapped_market = map (\<lambda>r. if date r = 5 then r\<lparr>high := NaN\<rparr> else r) (rising_market 14)"

text \<open>
  The date at which a series peaks: the largest defined value, taken at its earliest
  date (\<open>peak_first\<close>) or at its latest date (\<open>peak_last\<close>) when several dates hold it.
\<close>

definition peak_first :: "series \<Rightarrow> nat option" where
  "peak_first s =
     (case finite_values (map snd s) of
        [] \<Rightarrow> None
      | v # vs \<Rightarrow> map_option fst (find (\<lambda>p. snd p = Fin (Max (set (v # vs)))) s))"

definition peak_last :: "series \<Rightarrow> nat option" where
  "peak_last s =
     (case finite_values (map snd s) of
        [] \<Rightarrow> None
      | v # vs \<Rightarrow> map_option fst (find (\<lambda>p. snd p = Fin (Max (set (v # vs)))) (rev s)))"

text \<open>
  Top divergence over a window, for a given reading of the peak: the price peaks at the
  window's last date and the oscillator does not.
\<close>

definition top_divergence :: "(series \<Rightarrow> nat option) \<Rightarrow> series \<Rightarrow> series \<Rightarrow> bool" where
  "top_divergence peak price osc =
     (peak price = Some (fst (last price)) \<and> peak osc \<noteq> Some (fst (last price)))"

text \<open>
  Modelled from the spec: the \<open>ta\<close> library's indicators are not in the repository.
  These follow section 4.1 of the specification and stand for the library where a
  property is evaluated on a sample table; the general properties hold for every
  indicator function.

  OBV: a running total that starts at 0 on the first bar, adds the volume when the close
  rises against the prior close, subtracts it when the close falls and is unchanged
  when the close is equal.
\<close>

fun obv_from :: "pyfloat \<Rightarrow> pyfloat \<Rightarrow> (pyfloat \<times> pyfloat) list \<Rightarrow> pyfloat list" where
  "obv_from prev acc [] = [acc]"
| "obv_from prev acc ((c, v) # rest) =
     acc # obv_from c (if flt prev c then fadd acc v
                       else if flt c prev then fsub acc v else acc) rest"

definition spec_obv :: "series \<Rightarrow> series \<Rightarrow> series" where
  "spec_obv closes volumes =
     (case closes of [] \<Rightarrow> []
      | (d, c) # rest \<Rightarrow>
          zip (map fst closes)
              (obv_from c (Fin 0) (zip (map snd rest) (map snd (tl volumes)))))"

text \<open>
  Modelled from the spec: EMA with smoothing factor \<open>2 / (window + 1)\<close>, seeded with the
  first close and defined from the first point onward.
\<close>

definition spec_ema :: "series \<Rightarrow> nat \<Rightarrow> series" where
  "spec_ema closes window = ewm_span window closes"

text \<open>
  Modelled from the spec: RSI over the average gain and average loss of the
  period-over-period close differences with Wilder's smoothing, undefined for the first
  \<open>window\<close> points. The averages start as the plain means of the first \<open>window\<close>
  differences; the index is 100 when the average loss is zero. A table with an
  undefined close gets no value.
\<close>

definition rsi_of :: "real \<Rightarrow> real \<Rightarrow> pyfloat" where
  "rsi_of avg_gain avg_loss =
     Fin (if avg_loss = 0 then 100 else 100 - 100 / (1 + avg_gain / avg_loss))"

fun wilder :: "nat \<Rightarrow> real \<Rightarrow> real \<Rightarrow> (real \<times> real) list \<Rightarrow> pyfloat list" where
  "wilder w avg_gain avg_loss [] = [rsi_of avg_gain avg_loss]"
| "wilder w avg_gain avg_loss ((g, l) # rest) =
     rsi_of avg_gain avg_loss #
     wilder w ((avg_gain * (real w - 1) + g) / real w) ((avg_loss * (real w - 1) + l) / real w) rest"

definition gains :: "real list \<Rightarrow> real list" where
  "gains xs = map (\<lambda>(a, b). max (b - a) 0) (zip xs (tl xs))"

definition losses :: "real list \<Rightarrow> real list" where
  "losses xs = map (\<lambda>(a, b). max (a - b) 0) (zip xs (tl xs))"

definition rsi_values :: "real list \<Rightarrow> nat \<Rightarrow> pyfloat list" where
  "rsi_values xs w =
     (if w = 0 \<or> length xs \<le> w then replicate (length xs) NaN
      else replicate w NaN @
           wilder w (sum_list (take w (gains xs)) / real w) (sum_list (take w (losses xs)) / real w)
             (drop w (zip (gains xs) (losses xs))))"

definition spec_rsi :: "series \<Rightarrow> nat \<Rightarrow> series" where
  "spec_rsi closes window =
     (if list_ex isna (map snd closes) then map (\<lambda>(d, x). (d, NaN)) closes
      else zip (map fst closes) (rsi_values (map (value_of \<circ> snd) closes) window))"

text \<open>Sample tables: a list of closes and volumes on consecutive days.\<close>

definition quotes :: "(real \<times> real) list \<Rightarrow> bar list" where
  "quotes cvs =
     map (\<lambda>(i, c, v). \<lparr>date = i, high = Fin c, low = Fin c, close = Fin c, volume = Fin v\<rparr>)
         (zip [0..<length cvs] cvs)"

text \<open>
  \<open>dip_and_recover n\<close>: \<open>n\<close> rising closes, a dip on heavy volume, and two more
  rises to a new high (\<open>n + 3\<close> days).
\<close>

definition dip_and_recover :: "nat \<Rightarrow> bar list" where
  "dip_and_recover n =
     quotes (map (\<lambda>i. (real i + 1, 1000)) [0..<n] @
             [(real n - 1, 3000), (real n, 1000), (real n + 1, 1000)])"

text \<open>
  Nineteen days whose last five closes are 15, 16, 20, 18, 20: the high of 20 is reached
  twice, the second time on the last day and on lighter volume.
\<close>

definition double_top :: "bar list" where
  "double_top =
     quotes (map (\<lambda>i. (real i + 1, 1000)) [0..<14] @
             [(15, 1000), (16, 1000), (20, 1000), (18, 3000), (20, 1000)])"

text \<open>
  A series can be read by a divergence check when it carries the table's dates and has a
  defined value among its last five.
\<close>

definition readable :: "series \<Rightarrow> bar list \<Rightarrow> bool" where
  "readable osc df = (map fst osc = map date df \<and> peak_first (tail 5 osc) \<noteq> None)"

definition defined_points :: "series \<Rightarrow> nat" where
  "defined_points s = length (finite_values (map snd s))"

text \<open>
  An EMA function is window-gated on a table when its series of window \<open>w\<close> has a
  row for every date and is undefined exactly on the first \<open>w - 1\<close> rows.
\<close>

definition window_gated :: "(series \<Rightarrow> nat \<Rightarrow> series) \<Rightarrow> bar list \<Rightarrow> nat \<Rightarrow> bool" where
  "window_gated E df w =
     (map (\<lambda>p. isna (snd p)) (E (column close df) w) = map (\<lambda>i. i + 1 < w) [0..<length df])"

text \<open>
  The \<open>ta\<close> library's \<open>EMAIndicator\<close>, as the scripts call it (\<open>fillna\<close> off), passes
  \<open>min_periods = window\<close> to \<open>ewm\<close>: the average follows the same recurrence, and a
  row is left undefined until \<open>window\<close> defined closes have been seen.
\<close>

definition ta_ema :: "series \<Rightarrow> nat \<Rightarrow> series" where
  "ta_ema closes window =
     map (\<lambda>(i, p). (fst p, if defined_points (take (Suc i) closes) < window then NaN else snd p))
         (zip [0..<length closes] (ewm_span window closes))"

text \<open>
  Twenty-seven days: twenty-five closes at 100, a rise to 110 and a fall to 90; thirty
  days: twenty-eight closes at 100 and two rises; and three days closing at 10, 20
  and 1.
\<close>

definition collapse :: "bar list" where
  "collapse = quotes (replicate 25 (100, 1000) @ [(110, 1000), (90, 1000)])"

definition late_rally :: "bar list" where
  "late_rally = quotes (replicate 28 (100, 1000) @ [(110, 1000), (120, 1000)])"

definition spike :: "bar list" where
  "spike = quotes [(10, 1000), (20, 1000), (1, 1000)]"

text \<open>
  The composite score as the specification writes it, over defined readings.
\<close>

definition spec_score :: "real \<Rightarrow> real \<Rightarrow> real \<Rightarrow> real \<Rightarrow> real" where
  "spec_score adx dif dea rsi =
     (let adxScore = min adx 50 / 50 * 100;
          macdScore = (if 0 < dif \<and> 0 < dea then 100 else 0);
          rsiScore = max 0 ((rsi - 50) / 30 * 100)
      in 0.4 * adxScore + 0.3 * macdScore + 0.3 * rsiScore)"

text \<open>
  An instrument is usable when its download succeeds and has at least 30 rows; its
  result line is what the two steps of the script make of its table.
\<close>

definition usable :: "(string \<Rightarrow> bar list option) \<Rightarrow> string \<Rightarrow> bool" where
  "usable get_etf_data code =
     (case get_etf_data code of None \<Rightarrow> False | Some df \<Rightarrow> 30 \<le> length df)"

definition result_line ::
  "(string \<Rightarrow> bar list option) \<Rightarrow> (series \<Rightarrow> series \<Rightarrow> series \<Rightarrow> nat \<Rightarrow> series) \<Rightarrow>
   (series \<Rightarrow> nat \<Rightarrow> series) \<Rightarrow> string \<Rightarrow> evaluation option" where
  "result_line get_etf_data ADXIndicator RSIIndicator code =
     evaluate_trend (calculate_technical_indicators ADXIndicator RSIIndicator (get_etf_data code)) code"

text \<open>
  Sample tables with indicator columns: \<open>n\<close> days at a price of 10 whose indicator
  columns hold the given readings on every day. \<open>constant_adx v\<close> stands for the
  library's ADX where only its reading matters: \<open>v\<close> on every date. The sample market
  delivers a steady table, a rising table, a table of five days, a table without rows,
  and nothing for any other code.
\<close>

definition indicator_table ::
  "nat \<Rightarrow> pyfloat \<Rightarrow> pyfloat \<Rightarrow> pyfloat \<Rightarrow> pyfloat \<Rightarrow> ind_bar list" where
  "indicator_table n adx dif dea rsi =
     map (\<lambda>i. \<lparr>date = i, high = Fin 10, low = Fin 10, close = Fin 10, volume = Fin 1000,
               ADX = adx, MACD_DIF = dif, MACD_DEA = dea, RSI = rsi\<rparr>) [0..<n]"

definition constant_adx :: "real \<Rightarrow> series \<Rightarrow> series \<Rightarrow> series \<Rightarrow> nat \<Rightarrow> series" where
  "constant_adx v highs lows closes window = map (\<lambda>p. (fst p, Fin v)) closes"

definition sample_market :: "string \<Rightarrow> bar list option" where
  "sample_market code =
     (if code = ''510300'' then Some (steady_market 30 10 1)
      else if code = ''510500'' then Some (rising_market 31)
      else if code = ''588000'' then Some (steady_market 5 10 1)
      else if code = ''511010'' then Some []
      else None)"

section \<open>Properties of position\_management.py\<close>

lemma length_shift1: "length (shift1 xs) = length xs"
  by (cases xs) (simp_all add: shift1_def)

lemma shift1_nth: "i < length xs \<Longrightarrow> shift1 xs ! i = (if i = 0 then NaN else xs ! (i - 1))"
  by (cases i) (auto simp: shift1_def nth_butlast)

lemma length_true_range: "length (true_range df) = length df"
  by (simp add: true_range_def length_shift1)

lemma isna_value_of: "\<not> isna x \<Longrightarrow> x = Fin (value_of x)"
  by (cases x) simp_all

lemma true_range_nth:
  assumes "\<forall>r\<in>set df. finite_bar r" and "i < length df"
  shows "true_range df ! i = (if i = 0 then NaN else Fin (tr_at df i))"
proof -
  have fi: "finite_bar (df ! i)" using assms by simp
  have tr: "true_range df ! i =
      fmaximum (fsub (high (df ! i)) (low (df ! i)))
        (fmaximum (fabs (fsub (high (df ! i)) (shift1 (map close df) ! i)))
                  (fabs (fsub (low (df ! i)) (shift1 (map close df) ! i))))"
    using assms(2) by (simp add: true_range_def length_shift1)
  show ?thesis
  proof (cases "i = 0")
    case True
    then show ?thesis using tr assms(2) fi
      by (simp add: shift1_nth)
  next
    case False
    then have "finite_bar (df ! (i - 1))" using assms by simp
    then show ?thesis using tr assms(2) fi False
      apply (simp add: shift1_nth tr_at_def Let_def finite_bar_def)
      apply (cases "high (df ! i)"; cases "low (df ! i)"; cases "close (df ! (i - Suc 0))")
      apply simp_all
      done
  qed
qed

lemma true_range_finite:
  assumes "\<forall>r\<in>set df. finite_bar r"
  shows "true_range df = map (\<lambda>i. if i = 0 then NaN else Fin (tr_at df i)) [0..<length df]"
  by (rule nth_equalityI) (simp_all add: length_true_range true_range_nth[OF assms])

lemma finite_values_map_Fin: "finite_values (map (\<lambda>i. Fin (f i)) is) = map f is"
  by (induction "is") simp_all

lemma latest_atr_exact_window:
  assumes "\<forall>r\<in>set df. finite_bar r" and "length df = ATR_PERIOD"
  shows "latest_atr df = Fin (sum (tr_at df) {1..<ATR_PERIOD} / 13)"
proof -
  have "tail ATR_PERIOD (true_range df) = true_range df"
    using assms(2) by (simp add: tail_def length_true_range)
  also have "\<dots> = NaN # map (\<lambda>i. Fin (tr_at df i)) [1..<ATR_PERIOD]"
    using assms(2) by (simp add: true_range_finite[OF assms(1)] upt_conv_Cons ATR_PERIOD_def)
  finally have "finite_values (tail ATR_PERIOD (true_range df)) = map (tr_at df) [1..<ATR_PERIOD]"
    by (simp add: finite_values_map_Fin)
  then show ?thesis
    by (simp add: latest_atr_def nanmean_def interv_sum_list_conv_sum_set_nat ATR_PERIOD_def)
qed

lemma latest_atr_full_window:
  assumes "\<forall>r\<in>set df. finite_bar r" and "ATR_PERIOD < length df"
  shows "latest_atr df = Fin (sum (tr_at df) {length df - ATR_PERIOD..<length df} / 14)"
proof -
  have "tail ATR_PERIOD (true_range df) =
          map (\<lambda>i. Fin (tr_at df i)) [length df - ATR_PERIOD..<length df]"
    using assms(2)
    by (auto simp: tail_def length_true_range true_range_finite[OF assms(1)] drop_map)
  then have "finite_values (tail ATR_PERIOD (true_range df)) =
          map (tr_at df) [length df - ATR_PERIOD..<length df]"
    by (simp add: finite_values_map_Fin)
  then show ?thesis using assms(2)
    by (auto simp: latest_atr_def nanmean_def Let_def interv_sum_list_conv_sum_set_nat ATR_PERIOD_def)
qed

lemma calculate_position_cases:
  assumes "get_etf_data etf_code = Some df"
  shows "calculate_position get_etf_data etf_code =
    (if length df < ATR_PERIOD then None
     else case latest_atr df of
       NaN \<Rightarrow> None
     | Fin a \<Rightarrow>
         if fle (close (last df)) (Fin 0) \<or> a = 0 then None
         else Some \<lparr>pos_etf_code = etf_code,
                 latest_price = py_round 3 (close (last df)),
                 atr_value = py_round 3 (Fin a),
                 suggested_quantity = max 100 (\<lfloor>MAX_LOSS_PER_ETF / (ATR_MULTIPLIER * a)\<rfloor> div 100 * 100),
                 stop_loss_percent =
                   py_round 2 (fmul (fdiv (Fin (ATR_MULTIPLIER * a)) (close (last df))) (Fin 100)),
                 max_loss_amount =
                   py_round 2 (Fin (ATR_MULTIPLIER * a *
                     of_int (max 100 (\<lfloor>MAX_LOSS_PER_ETF / (ATR_MULTIPLIER * a)\<rfloor> div 100 * 100))))\<rparr>)"
  using assms
  by (auto simp: calculate_position_def Let_def ATR_MULTIPLIER_def split: pyfloat.splits)

text \<open>
  Claim C8, as the script has it. When the provider returns a table,
  \<open>calculate_position\<close> returns \<open>None\<close> exactly when the table has fewer than
  \<open>ATR_PERIOD\<close> rows, the latest ATR is undefined, the latest close is at most 0, or
  the latest ATR is zero (the integer conversion of the floor division raises and the
  handler returns \<open>None\<close>). \<open>None\<close> carries no value at all. Otherwise the
  stop-loss percentage is \<open>ATR_MULTIPLIER * ATR / close * 100\<close>, rounded to two
  decimals for display.
\<close>

theorem position_none_iff:
  assumes "get_etf_data etf_code = Some df"
  shows "(calculate_position get_etf_data etf_code = None) =
           (length df < ATR_PERIOD \<or> isna (latest_atr df) \<or>
            fle (close (last df)) (Fin 0) \<or> latest_atr df = Fin 0) \<and>
         (\<forall>r a c. calculate_position get_etf_data etf_code = Some r \<longrightarrow>
            latest_atr df = Fin a \<longrightarrow> close (last df) = Fin c \<longrightarrow>
            stop_loss_percent r = py_round 2 (Fin (ATR_MULTIPLIER * a / c * 100)))"
  unfolding calculate_position_cases[of get_etf_data etf_code df, OF assms]
  by (auto split: pyfloat.splits if_splits)

text \<open>
  Claim C3, as the script has it. When the table has at least \<open>ATR_PERIOD\<close> rows, the
  latest ATR is defined and not zero and the latest close is positive, a recommendation
  is returned; its quantity is \<open>\<lfloor>MAX_LOSS_PER_ETF / (ATR_MULTIPLIER * ATR)\<rfloor>\<close> rounded down
  to a multiple of 100 and raised to 100 where that is smaller, hence a positive multiple
  of 100; and the reported maximum loss is \<open>ATR_MULTIPLIER * ATR * quantity\<close> rounded to
  two decimals.
\<close>

theorem position_quantity:
  assumes "get_etf_data etf_code = Some df" and "ATR_PERIOD \<le> length df"
    and "latest_atr df = Fin a" and "a \<noteq> 0"
    and "close (last df) = Fin c" and "0 < c"
  shows "\<exists>r. calculate_position get_etf_data etf_code = Some r \<and>
           suggested_quantity r =
             (let q = \<lfloor>MAX_LOSS_PER_ETF / (ATR_MULTIPLIER * a)\<rfloor> in max 100 (q - q mod 100)) \<and>
           0 < suggested_quantity r \<and> 100 dvd suggested_quantity r \<and>
           max_loss_amount r =
             py_round 2 (Fin (ATR_MULTIPLIER * a * of_int (suggested_quantity r)))"
proof -
  have m: "q div 100 * 100 = q - q mod 100" for q :: int
    by (simp add: minus_mod_eq_div_mult)
  have d: "100 dvd max 100 (q div 100 * 100)" for q :: int
    by (simp add: max_def)
  show ?thesis
    unfolding calculate_position_cases[of get_etf_data etf_code df, OF assms(1)] using assms(2-) d
    by (simp add: Let_def m[symmetric])
qed

text \<open>
  Claim C10, as the script has it. On a table of exactly \<open>ATR_PERIOD\<close> rows of defined
  prices the length check passes, the first true range is undefined, the latest ATR is
  the mean of the other 13 true ranges, and the result is computed from that ATR: a
  recommendation when the latest close is positive and that ATR is not zero, \<open>None\<close>
  otherwise. With more than \<open>ATR_PERIOD\<close> rows the latest ATR is the mean of the last 14
  true ranges.
\<close>

theorem atr_exact_window:
  assumes "get_etf_data etf_code = Some df" and "\<forall>r\<in>set df. finite_bar r"
  shows "(length df = ATR_PERIOD \<longrightarrow>
            hd (true_range df) = NaN \<and>
            latest_atr df = Fin (sum (tr_at df) {1..<ATR_PERIOD} / 13) \<and>
            calculate_position get_etf_data etf_code =
              (let m = sum (tr_at df) {1..<ATR_PERIOD} / 13; c = value_of (close (last df));
                   q = max 100 (\<lfloor>MAX_LOSS_PER_ETF / (ATR_MULTIPLIER * m)\<rfloor> div 100 * 100)
               in if c \<le> 0 \<or> m = 0 then None
                  else Some \<lparr>pos_etf_code = etf_code,
                          latest_price = py_round 3 (Fin c),
                          atr_value = py_round 3 (Fin m),
                          suggested_quantity = q,
                          stop_loss_percent = py_round 2 (Fin (ATR_MULTIPLIER * m / c * 100)),
                          max_loss_amount = py_round 2 (Fin (ATR_MULTIPLIER * m * of_int q))\<rparr>)) \<and>
         (ATR_PERIOD < length df \<longrightarrow>
            latest_atr df = Fin (sum (tr_at df) {length df - ATR_PERIOD..<length df} / 14))"
proof (intro conjI impI)
  assume len: "length df = ATR_PERIOD"
  then have ne: "df \<noteq> []" by (auto simp: ATR_PERIOD_def)
  show "hd (true_range df) = NaN"
    using true_range_nth[OF assms(2), of 0] ne
    by (simp add: hd_conv_nth length_true_range flip: length_greater_0_conv)
  show atr: "latest_atr df = Fin (sum (tr_at df) {1..<ATR_PERIOD} / 13)"
    by (rule latest_atr_exact_window[OF assms(2) len])
  have "finite_bar (last df)" using assms(2) ne by simp
  then have c: "close (last df) = Fin (value_of (close (last df)))"
    by (simp add: finite_bar_def isna_value_of)
  show "calculate_position get_etf_data etf_code =
              (let m = sum (tr_at df) {1..<ATR_PERIOD} / 13; c = value_of (close (last df));
                   q = max 100 (\<lfloor>MAX_LOSS_PER_ETF / (ATR_MULTIPLIER * m)\<rfloor> div 100 * 100)
               in if c \<le> 0 \<or> m = 0 then None
                  else Some \<lparr>pos_etf_code = etf_code,
                          latest_price = py_round 3 (Fin c),
                          atr_value = py_round 3 (Fin m),
                          suggested_quantity = q,
                          stop_loss_percent = py_round 2 (Fin (ATR_MULTIPLIER * m / c * 100)),
                          max_loss_amount = py_round 2 (Fin (ATR_MULTIPLIER * m * of_int q))\<rparr>)"
    unfolding calculate_position_cases[of get_etf_data etf_code df, OF assms(1)] atr
    using len by (subst (1 2 3 4) c) (auto simp: Let_def simp del: py_round.simps)
next
  assume "ATR_PERIOD < length df"
  then show "latest_atr df = Fin (sum (tr_at df) {length df - ATR_PERIOD..<length df} / 14)"
    by (rule latest_atr_full_window[OF assms(2)])
qed

section \<open>Properties of etf\_risk\_monitor.py\<close>

lemma Max_insert_insert:
  fixes a b :: real
  assumes "finite A"
  shows "Max (insert a (insert b A)) = Max (insert (max a b) A)"
proof (cases "A = {}")
  case True
  then show ?thesis by (simp add: max.commute)
next
  case False
  then show ?thesis using assms by (simp add: max.assoc)
qed

lemma argmax_scan_best:
  "argmax_scan (Some (bd, bv)) s =
     (let m = Max (insert bv (set (finite_values (map snd s))))
      in if m = bv then Some (bd, bv)
         else map_option (\<lambda>p. (fst p, m)) (find (\<lambda>p. snd p = Fin m) s))"
proof (induction s arbitrary: bd bv)
  case Nil
  then show ?case by simp
next
  case (Cons p s)
  obtain d x where p: "p = (d, x)" by (cases p)
  show ?case
  proof (cases x)
    case NaN
    then show ?thesis using Cons.IH[of bd bv] p by (simp add: Let_def)
  next
    case (Fin v)
    let ?A = "set (finite_values (map snd s))"
    have M: "Max (insert bv (insert v ?A)) = Max (insert (max bv v) ?A)"
      by (rule Max_insert_insert) simp
    have ge: "max bv v \<le> Max (insert (max bv v) ?A)"
      by (rule Max_ge) simp_all
    show ?thesis
    proof (cases "bv < v")
      case True
      then have mx: "max bv v = v" by simp
      from ge have "v \<le> Max (insert v ?A)" by (simp only: mx)
      with True have ne: "Max (insert v ?A) \<noteq> bv" by linarith
      show ?thesis using True p Fin Cons.IH[of d v] M mx ne
        by (auto simp: Let_def)
    next
      case False
      then have mx: "max bv v = bv" by simp
      from ge have "bv \<le> Max (insert bv ?A)" by (simp only: mx)
      with False have "Max (insert bv ?A) \<noteq> bv \<Longrightarrow> v \<noteq> Max (insert bv ?A)"
        by linarith
      then show ?thesis using False p Fin Cons.IH[of bd bv] M mx
        by (auto simp: Let_def)
    qed
  qed
qed

lemma argmax_scan_None:
  "argmax_scan None s =
     (case finite_values (map snd s) of
        [] \<Rightarrow> None
      | v # vs \<Rightarrow> map_option (\<lambda>p. (fst p, Max (set (v # vs))))
                   (find (\<lambda>p. snd p = Fin (Max (set (v # vs)))) s))"
proof (induction s)
  case Nil
  then show ?case by simp
next
  case (Cons p s)
  obtain d x where p: "p = (d, x)" by (cases p)
  show ?case
  proof (cases x)
    case NaN
    then show ?thesis using Cons.IH p by (simp split: list.splits)
  next
    case (Fin v)
    then show ?thesis using p by (auto simp: argmax_scan_best Let_def)
  qed
qed

lemma idxmax_peak_first:
  "idxmax s = (case peak_first s of None \<Rightarrow> Inl ValueError | Some d \<Rightarrow> Inr d)"
  by (auto simp: idxmax_def peak_first_def argmax_scan_None split: list.splits option.splits)

lemma peak_first_nonempty: "peak_first s \<noteq> None \<Longrightarrow> s \<noteq> []"
  by (auto simp: peak_first_def)

lemma divergence_window:
  assumes "peak_first price \<noteq> None" and "peak_first osc \<noteq> None"
    and "fst (last osc) = fst (last price)"
  shows "(case idxmax price of Inl e \<Rightarrow> Inl e | Inr price_peak \<Rightarrow>
          case index_last price of Inl e \<Rightarrow> Inl e | Inr price_end \<Rightarrow>
          if price_peak = price_end
          then (case idxmax osc of Inl e \<Rightarrow> Inl e | Inr osc_peak \<Rightarrow>
                case index_last osc of Inl e \<Rightarrow> Inl e | Inr osc_end \<Rightarrow>
                Inr (osc_peak \<noteq> osc_end))
          else Inr False) = Inr (top_divergence peak_first price osc)"
  using assms peak_first_nonempty[OF assms(1)] peak_first_nonempty[OF assms(2)]
  by (auto simp: idxmax_peak_first index_last_def top_divergence_def)

lemma map_fst_column: "map fst (column f df) = map date df"
  by (simp add: column_def comp_def)

lemma last_tail: "xs \<noteq> [] \<Longrightarrow> 0 < n \<Longrightarrow> last (tail n xs) = last xs"
  by (simp add: tail_def)

lemma fst_last_tail:
  assumes "map fst s = map date df" and "df \<noteq> []"
  shows "fst (last (tail 5 s)) = date (last df)"
proof -
  from assms have ne: "s \<noteq> []" by auto
  then have "fst (last (tail 5 s)) = last (map fst s)"
    by (simp add: last_tail last_map)
  then show ?thesis using assms by (simp add: last_map)
qed

lemma check_rsi_divergence_eval:
  assumes "RSI_PERIOD + 5 \<le> length df"
    and "map fst (R (column close df) RSI_PERIOD) = map date df"
    and "peak_first (tail 5 (column close df)) \<noteq> None"
    and "peak_first (tail 5 (R (column close df) RSI_PERIOD)) \<noteq> None"
  shows "check_rsi_divergence R df =
           Inr (top_divergence peak_first (tail 5 (column close df))
                  (tail 5 (R (column close df) RSI_PERIOD)))"
proof -
  from assms(1) have ne: "df \<noteq> []" by auto
  have "fst (last (tail 5 (R (column close df) RSI_PERIOD))) =
        fst (last (tail 5 (column close df)))"
    using fst_last_tail[OF assms(2) ne] fst_last_tail[OF map_fst_column ne, of close] by simp
  from divergence_window[OF assms(3) assms(4) this] assms(1)
  show ?thesis by (simp add: check_rsi_divergence_def Let_def)
qed

lemma check_obv_divergence_eval:
  assumes "10 \<le> length df"
    and "map fst (V (column close df) (column volume df)) = map date df"
    and "peak_first (tail 5 (column close df)) \<noteq> None"
    and "peak_first (tail 5 (V (column close df) (column volume df))) \<noteq> None"
  shows "check_obv_divergence V df =
           Inr (top_divergence peak_first (tail 5 (column close df))
                  (tail 5 (V (column close df) (column volume df))))"
proof -
  from assms(1) have ne: "df \<noteq> []" by auto
  have "fst (last (tail 5 (V (column close df) (column volume df)))) =
        fst (last (tail 5 (column close df)))"
    using fst_last_tail[OF assms(2) ne] fst_last_tail[OF map_fst_column ne, of close] by simp
  from divergence_window[OF assms(3) assms(4) this] assms(1)
  show ?thesis by (simp add: check_obv_divergence_def Let_def)
qed


text \<open>
  Claim C6, as the scripts have it. The RSI check answers false on fewer than
  \<open>RSI_PERIOD + 5\<close> (19) rows and evaluates the window from there on; the OBV check
  answers false on fewer than 10 rows and evaluates the window from there on. The two
  thresholds differ, and neither is the larger of the indicator's window and 5.
\<close>

theorem divergence_minimum_length:
  "(length df < RSI_PERIOD + 5 \<longrightarrow> check_rsi_divergence R df = Inr False) \<and>
   (RSI_PERIOD + 5 \<le> length df \<and> readable (column close df) df \<and>
      readable (R (column close df) RSI_PERIOD) df \<longrightarrow>
      check_rsi_divergence R df =
        Inr (top_divergence peak_first (tail 5 (column close df))
               (tail 5 (R (column close df) RSI_PERIOD)))) \<and>
   (length df < 10 \<longrightarrow> check_obv_divergence V df = Inr False) \<and>
   (10 \<le> length df \<and> readable (column close df) df \<and>
      readable (V (column close df) (column volume df)) df \<longrightarrow>
      check_obv_divergence V df =
        Inr (top_divergence peak_first (tail 5 (column close df))
               (tail 5 (V (column close df) (column volume df)))))"
proof (intro conjI impI)
  assume "length df < RSI_PERIOD + 5"
  then show "check_rsi_divergence R df = Inr False"
    by (simp add: check_rsi_divergence_def)
next
  assume "length df < 10"
  then show "check_obv_divergence V df = Inr False"
    by (simp add: check_obv_divergence_def)
next
  assume "RSI_PERIOD + 5 \<le> length df \<and> readable (column close df) df \<and>
      readable (R (column close df) RSI_PERIOD) df"
  then show "check_rsi_divergence R df =
        Inr (top_divergence peak_first (tail 5 (column close df))
               (tail 5 (R (column close df) RSI_PERIOD)))"
    by (simp add: readable_def check_rsi_divergence_eval)
next
  assume "10 \<le> length df \<and> readable (column close df) df \<and>
      readable (V (column close df) (column volume df)) df"
  then show "check_obv_divergence V df =
        Inr (top_divergence peak_first (tail 5 (column close df))
               (tail 5 (V (column close df) (column volume df))))"
    by (simp add: readable_def check_obv_divergence_eval)
qed

lemma check_ema_death_cross_eval:
  assumes "EMA_LONG + 1 \<le> length df"
    and "2 \<le> length (E (column close df) EMA_SHORT)"
    and "2 \<le> length (E (column close df) EMA_LONG)"
  shows "check_ema_death_cross E df =
     (let es = E (column close df) EMA_SHORT; el = E (column close df) EMA_LONG
      in Inr (fgt (snd (es ! (length es - 2))) (snd (el ! (length el - 2))) \<and>
              flt (snd (es ! (length es - 1))) (snd (el ! (length el - 1)))))"
  using assms by (simp add: check_ema_death_cross_def iloc_back_def Let_def)

lemma check_ema_death_cross_short: 
  "length df < EMA_LONG + 1 \<Longrightarrow> check_ema_death_cross E df = Inr False"
  by (simp add: check_ema_death_cross_def)

text \<open>
  Claim C4. For a table long enough for the check to run (\<open>EMA_LONG + 1\<close> rows) and
  EMA series aligned with it, the death-cross flag is true if and only if the short EMA
  is strictly above the long EMA at the second-to-last date and strictly below it at
  the last date. Consequently a table on which the short EMA is at no date below the
  long EMA, in particular one on which it stays above, is never flagged, whatever its
  length.
\<close>

theorem death_cross_flag:
  assumes "length (E (column close df) EMA_SHORT) = length df"
    and "length (E (column close df) EMA_LONG) = length df"
  shows "(EMA_LONG + 1 \<le> length df \<longrightarrow>
            check_ema_death_cross E df =
              Inr (fgt (snd (E (column close df) EMA_SHORT ! (length df - 2)))
                       (snd (E (column close df) EMA_LONG ! (length df - 2))) \<and>
                   flt (snd (E (column close df) EMA_SHORT ! (length df - 1)))
                       (snd (E (column close df) EMA_LONG ! (length df - 1))))) \<and>
         ((\<forall>p\<in>set (zip (E (column close df) EMA_SHORT) (E (column close df) EMA_LONG)).
              \<not> flt (snd (fst p)) (snd (snd p))) \<longrightarrow>
            check_ema_death_cross E df = Inr False)"
proof (intro conjI impI)
  assume len: "EMA_LONG + 1 \<le> length df"
  then have "2 \<le> length df" by (simp add: EMA_LONG_def)
  with assms check_ema_death_cross_eval[of df E, OF len]
  show "check_ema_death_cross E df =
              Inr (fgt (snd (E (column close df) EMA_SHORT ! (length df - 2)))
                       (snd (E (column close df) EMA_LONG ! (length df - 2))) \<and>
                   flt (snd (E (column close df) EMA_SHORT ! (length df - 1)))
                       (snd (E (column close df) EMA_LONG ! (length df - 1))))"
    by (simp add: Let_def)
next
  let ?es = "E (column close df) EMA_SHORT" and ?el = "E (column close df) EMA_LONG"
  assume above: "\<forall>p\<in>set (zip ?es ?el). \<not> flt (snd (fst p)) (snd (snd p))"
  show "check_ema_death_cross E df = Inr False"
  proof (cases "length df < EMA_LONG + 1")
    case True
    then show ?thesis by (rule check_ema_death_cross_short)
  next
    case False
    then have len: "EMA_LONG + 1 \<le> length df" by simp
    then have two: "2 \<le> length df" by (simp add: EMA_LONG_def)
    then have "length df - 1 < length (zip ?es ?el)" using assms by simp
    then have "zip ?es ?el ! (length df - 1) \<in> set (zip ?es ?el)" by (rule nth_mem)
    with above have "\<not> flt (snd (?es ! (length df - 1))) (snd (?el ! (length df - 1)))"
      using assms two by auto
    with assms two check_ema_death_cross_eval[of df E, OF len]
    show ?thesis by (simp add: Let_def)
  qed
qed

lemma length_finite_values: "length (finite_values xs) = length (filter (\<lambda>b. \<not> b) (map isna xs))"
  by (induction xs rule: finite_values.induct) simp_all

lemma count_from_window: "length (filter (\<lambda>b. \<not> b) (map (\<lambda>i. i + 1 < w) [0..<n])) = n - (w - 1)"
  by (induction n) auto

lemma window_gated_length:
  assumes "window_gated E df w"
  shows "length (E (column close df) w) = length df"
proof -
  have "length (map (\<lambda>p. isna (snd p)) (E (column close df) w)) =
        length (map (\<lambda>i. i + 1 < w) [0..<length df])"
    using assms by (simp only: window_gated_def)
  then show ?thesis by simp
qed

lemma window_gated_defined_points:
  assumes "window_gated E df w"
  shows "defined_points (E (column close df) w) = length df - (w - 1)"
proof -
  have "map isna (map snd (E (column close df) w)) = map (\<lambda>i. i + 1 < w) [0..<length df]"
    using assms by (simp add: window_gated_def comp_def)
  then show ?thesis
    by (simp only: defined_points_def length_finite_values count_from_window)
qed

text \<open>
  Claim C7. The library's EMA writes a value only from the \<open>window\<close>-th close on, so on
  a table without gaps the series of window \<open>w\<close> is undefined on its first \<open>w - 1\<close>
  rows and defined on the others. For every EMA function that does so on the table, the
  check's length test is exactly the test that the two series do not both have two
  defined points: then the check answers false without comparing, and whenever both
  series have at least two defined points it performs the comparison of the last two
  dates.
\<close>

theorem death_cross_minimum_length:
  assumes "window_gated E df EMA_SHORT" and "window_gated E df EMA_LONG"
  shows "(length df < EMA_LONG + 1) =
           (\<not> (2 \<le> defined_points (E (column close df) EMA_SHORT) \<and>
               2 \<le> defined_points (E (column close df) EMA_LONG))) \<and>
         (\<not> (2 \<le> defined_points (E (column close df) EMA_SHORT) \<and>
             2 \<le> defined_points (E (column close df) EMA_LONG)) \<longrightarrow>
            check_ema_death_cross E df = Inr False) \<and>
         (2 \<le> defined_points (E (column close df) EMA_SHORT) \<and>
          2 \<le> defined_points (E (column close df) EMA_LONG) \<longrightarrow>
            check_ema_death_cross E df =
              Inr (fgt (snd (E (column close df) EMA_SHORT ! (length df - 2)))
                       (snd (E (column close df) EMA_LONG ! (length df - 2))) \<and>
                   flt (snd (E (column close df) EMA_SHORT ! (length df - 1)))
                       (snd (E (column close df) EMA_LONG ! (length df - 1)))))"
proof -
  let ?es = "E (column close df) EMA_SHORT" and ?el = "E (column close df) EMA_LONG"
  have ls: "length ?es = length df" and ll: "length ?el = length df"
    using assms by (simp_all add: window_gated_length)
  have ds: "defined_points ?es = length df - 11" and dl: "defined_points ?el = length df - 25"
    using assms by (simp_all add: window_gated_defined_points EMA_SHORT_def EMA_LONG_def)
  have gate: "(length df < EMA_LONG + 1) = (\<not> (2 \<le> defined_points ?es \<and> 2 \<le> defined_points ?el))"
    unfolding ds dl by (auto simp: EMA_LONG_def)
  have fail: "check_ema_death_cross E df = Inr False" if "length df < EMA_LONG + 1"
    using that by (rule check_ema_death_cross_short)
  have run: "check_ema_death_cross E df =
              Inr (fgt (snd (?es ! (length df - 2))) (snd (?el ! (length df - 2))) \<and>
                   flt (snd (?es ! (length df - 1))) (snd (?el ! (length df - 1))))"
    if len: "EMA_LONG + 1 \<le> length df"
  proof -
    from len have "2 \<le> length df" by (simp add: EMA_LONG_def)
    with ls ll check_ema_death_cross_eval[of df E, OF len] show ?thesis
      by (simp add: Let_def)
  qed
  show ?thesis
  proof (intro conjI impI)
    show "(length df < EMA_LONG + 1) = (\<not> (2 \<le> defined_points ?es \<and> 2 \<le> defined_points ?el))"
      by (rule gate)
  next
    assume "\<not> (2 \<le> defined_points ?es \<and> 2 \<le> defined_points ?el)"
    with gate have "length df < EMA_LONG + 1" by simp
    then show "check_ema_death_cross E df = Inr False" by (rule fail)
  next
    assume "2 \<le> defined_points ?es \<and> 2 \<le> defined_points ?el"
    with gate have "EMA_LONG + 1 \<le> length df" by simp
    then show "check_ema_death_cross E df =
              Inr (fgt (snd (?es ! (length df - 2))) (snd (?el ! (length df - 2))) \<and>
                   flt (snd (?es ! (length df - 1))) (snd (?el ! (length df - 1))))"
      by (rule run)
  qed
qed

section \<open>Properties of etf\_trend\_evaluation.py\<close>

lemma total_score_finite:
  "total_score (Fin a) (0 < d \<and> 0 < e) (Fin r) = Fin (spec_score a d e r)"
  by (auto simp: total_score_def adx_score_def macd_score_def rsi_score_def spec_score_def
      py_min_def py_max_def fgt_def Let_def min_def max_def)

lemma length_calculate_technical_indicators:
  "calculate_technical_indicators A R (Some raw) = Some rows \<Longrightarrow> length rows = length raw"
  by (auto simp: calculate_technical_indicators_def Let_def split: if_splits)

text \<open>
  Claim C5. On a table of at least 30 rows whose latest indicator readings are defined,
  the score the script computes is \<open>0.4 * adxScore + 0.3 * macdScore + 0.3 * rsiScore\<close>
  with \<open>adxScore = min(ADX, 50) / 50 * 100\<close>, \<open>macdScore\<close> 100 when DIF and DEA are
  both positive and 0 otherwise, and \<open>rsiScore = max(0, (RSI - 50) / 30 * 100)\<close>; the
  result line reports it rounded to one decimal, and every raw table of at least 30
  rows gets a result line. On fewer than 30 rows neither step produces anything.
\<close>

theorem trend_score_formula:
  "(30 \<le> length rows \<and> ADX (last rows) = Fin a \<and> MACD_DIF (last rows) = Fin d \<and>
      MACD_DEA (last rows) = Fin e \<and> RSI (last rows) = Fin r \<longrightarrow>
      total_score (Fin a) (0 < d \<and> 0 < e) (Fin r) = Fin (spec_score a d e r) \<and>
      (\<exists>ev. evaluate_trend (Some rows) code = Some ev \<and>
            trend_score ev = py_round 1 (Fin (spec_score a d e r)))) \<and>
   (30 \<le> length raw \<longrightarrow>
      evaluate_trend (calculate_technical_indicators A R (Some raw)) code \<noteq> None) \<and>
   (length rows < 30 \<longrightarrow> evaluate_trend (Some rows) code = None) \<and>
   (length raw < 30 \<longrightarrow> calculate_technical_indicators A R (Some raw) = None \<and>
      evaluate_trend (calculate_technical_indicators A R (Some raw)) code = None)"
  by (auto simp: evaluate_trend_def calculate_technical_indicators_def Let_def fgt_def
      total_score_finite simp del: py_round.simps)

lemma insert_desc_mset: "mset (insert_desc e xs) = add_mset e (mset xs)"
  by (induction xs) simp_all

lemma sort_values_desc_mset: "mset (sort_values_desc xs) = mset xs"
  by (induction xs) (simp_all add: insert_desc_mset)

lemma ranks_before_total: "ranks_before a b \<or> ranks_before b a"
  by (cases a; cases b) (auto simp: ranks_before_def)

lemma ranks_before_trans: "ranks_before a b \<Longrightarrow> ranks_before b c \<Longrightarrow> ranks_before a c"
  by (cases a; cases b; cases c) (auto simp: ranks_before_def)

lemma set_insert_desc: "set (insert_desc e xs) = insert e (set xs)"
  by (induction xs) auto

lemma insert_desc_sorted:
  "sorted_wrt (\<lambda>x y. ranks_before (trend_score x) (trend_score y)) xs \<Longrightarrow>
   sorted_wrt (\<lambda>x y. ranks_before (trend_score x) (trend_score y)) (insert_desc e xs)"
proof (induction xs)
  case Nil
  then show ?case by simp
next
  case (Cons x xs)
  show ?case
  proof (cases "ranks_before (trend_score e) (trend_score x)")
    case True
    then show ?thesis using Cons.prems by (auto intro: ranks_before_trans)
  next
    case False
    then have "ranks_before (trend_score x) (trend_score e)"
      using ranks_before_total by blast
    then show ?thesis using False Cons by (auto simp: set_insert_desc)
  qed
qed

lemma sort_values_desc_sorted:
  "sorted_wrt (\<lambda>x y. ranks_before (trend_score x) (trend_score y)) (sort_values_desc xs)"
  by (induction xs) (simp_all add: insert_desc_sorted)

lemma result_line_cases:
  "result_line get A R c =
     (case get c of None \<Rightarrow> None
      | Some df \<Rightarrow> evaluate_trend (calculate_technical_indicators A R (Some df)) c)"
  by (simp add: result_line_def calculate_technical_indicators_def evaluate_trend_def
      split: option.splits)

lemma collect_evaluations_eq:
  assumes "\<forall>c\<in>set codes. get c \<noteq> Some []"
  shows "collect_evaluations get A R codes results =
           Inr (results @ List.map_filter (result_line get A R) codes)"
  using assms
proof (induction codes arbitrary: results)
  case Nil
  then show ?case by (simp add: List.map_filter_simps)
next
  case (Cons c codes)
  then have ne: "get c \<noteq> Some []" and rest: "\<forall>c\<in>set codes. get c \<noteq> Some []" by simp_all
  show ?case
    using ne Cons.IH[OF rest]
    by (auto simp: List.map_filter_simps result_line_cases evaluate_trend_def
        split: option.splits)
qed

lemma result_line_usable: "(result_line get A R c \<noteq> None) = usable get c"
  by (auto simp: result_line_cases usable_def evaluate_trend_def
      calculate_technical_indicators_def Let_def split: option.splits)

lemma result_line_code: "result_line get A R c = Some ev \<Longrightarrow> eval_etf_code ev = c"
  by (auto simp: result_line_cases evaluate_trend_def Let_def split: option.splits if_splits)

lemma map_filter_codes:
  "map eval_etf_code (List.map_filter (result_line get A R) codes) = filter (usable get) codes"
proof (induction codes)
  case Nil
  then show ?case by (simp add: List.map_filter_simps)
next
  case (Cons c codes)
  show ?case
  proof (cases "result_line get A R c")
    case None
    then have "\<not> usable get c" using result_line_usable[of get A R c] by simp
    then show ?thesis using None Cons by (simp add: List.map_filter_simps)
  next
    case (Some ev)
    then have "usable get c" using result_line_usable[of get A R c] by simp
    then show ?thesis using Some Cons result_line_code[OF Some]
      by (simp add: List.map_filter_simps)
  qed
qed

text \<open>
  The batch when no downloaded table is empty: the instruments whose download fails or
  has fewer than 30 rows are left out, every other instrument contributes its one
  result line, and the lines are returned ordered by score, larger scores first and
  undefined scores last (\<open>None\<close> when no line is left).
\<close>

theorem batch_result:
  assumes "\<forall>c\<in>set codes. get c \<noteq> Some []"
  shows "\<exists>results.
           results = List.map_filter (result_line get A R) codes \<and>
           map eval_etf_code results = filter (usable get) codes \<and>
           evaluate_multiple_etfs get A R codes =
             Inr (if results = [] then None else Some (sort_values_desc results)) \<and>
           mset (sort_values_desc results) = mset results \<and>
           sorted_wrt (\<lambda>x y. ranks_before (trend_score x) (trend_score y))
             (sort_values_desc results)"
  using collect_evaluations_eq[OF assms, of A R "[]"]
  by (simp add: evaluate_multiple_etfs_def map_filter_codes sort_values_desc_mset
      sort_values_desc_sorted)

lemma adx_score_finite: "adx_score (Fin a) = Fin (min a 50 / 50 * 100)"
  by (simp add: adx_score_def py_min_def min_def)

lemma rsi_score_finite: "rsi_score (Fin r) = Fin (max 0 ((r - 50) / 30 * 100))"
  by (simp add: rsi_score_def py_max_def fgt_def max_def)

text \<open>
  The range of the composite score: for a non-negative ADX and an RSI between 0 and 100
  it lies between 0 and 120, and between 0 and 100 when the RSI is at most 80.
\<close>

theorem total_score_range:
  assumes "0 \<le> a" and "0 \<le> r" and "r \<le> 100"
  shows "\<exists>s. total_score (Fin a) m (Fin r) = Fin s \<and> 0 \<le> s \<and> s \<le> 120 \<and>
             (r \<le> 80 \<longrightarrow> s \<le> 100)"
proof -
  define x where "x = min a 50 / 50 * 100"
  define y :: real where "y = (if m then 100 else 0)"
  define z where "z = max 0 ((r - 50) / 30 * 100)"
  have x: "0 \<le> x" "x \<le> 100" using assms(1) by (simp_all add: x_def min_def)
  have y: "0 \<le> y" "y \<le> 100" by (simp_all add: y_def)
  have z: "0 \<le> z" "3 * z \<le> 500" "r \<le> 80 \<longrightarrow> z \<le> 100"
    using assms(2,3) by (auto simp: z_def max_def)
  have "total_score (Fin a) m (Fin r) = Fin (x * (4 / 10) + y * (3 / 10) + z * (3 / 10))"
    by (simp add: total_score_def adx_score_finite rsi_score_finite macd_score_def x_def y_def z_def)
  moreover have "0 \<le> x * (4 / 10) + y * (3 / 10) + z * (3 / 10)" using x y z by simp
  moreover have "x * (4 / 10) + y * (3 / 10) + z * (3 / 10) \<le> 120" using x y z by simp
  moreover have "r \<le> 80 \<longrightarrow> x * (4 / 10) + y * (3 / 10) + z * (3 / 10) \<le> 100"
    using x y z by auto
  ultimately show ?thesis by blast
qed

section \<open>The modelled indicators and the sample tables\<close>

lemma length_ewm_scan: "length (ewm_scan \<alpha> w old_wt xs) = Suc (length xs)"
  by (induction \<alpha> w old_wt xs rule: ewm_scan.induct) simp_all

lemma map_fst_ewm_mean: "map fst (ewm_mean \<alpha> s) = map fst s"
  by (cases s) (auto simp: ewm_mean_def length_ewm_scan map_fst_zip)

lemma map_fst_spec_ema: "map fst (spec_ema s w) = map fst s"
  by (simp add: spec_ema_def ewm_span_def map_fst_ewm_mean)

lemma length_spec_ema: "length (spec_ema s w) = length s"
  using map_fst_spec_ema[of s w] by (metis length_map)

lemma length_obv_from: "length (obv_from prev acc xs) = Suc (length xs)"
  by (induction xs arbitrary: prev acc) auto

lemma map_fst_spec_obv:
  "length volumes = length closes \<Longrightarrow> map fst (spec_obv closes volumes) = map fst closes"
  by (cases closes) (auto simp: spec_obv_def length_obv_from map_fst_zip)

lemma length_wilder: "length (wilder w ag al xs) = Suc (length xs)"
  by (induction xs arbitrary: ag al) auto

lemma length_rsi_values: "length (rsi_values xs w) = length xs"
  by (auto simp: rsi_values_def gains_def losses_def length_wilder)

lemma map_fst_spec_rsi: "map fst (spec_rsi s w) = map fst s"
  by (auto simp: spec_rsi_def length_rsi_values map_fst_zip comp_def split_def)

lemma length_quotes: "length (quotes cvs) = length cvs"
  by (simp add: quotes_def)

lemma length_dip_and_recover: "length (dip_and_recover n) = n + 3"
  by (simp add: dip_and_recover_def length_quotes)

lemma length_column: "length (column f df) = length df"
  by (simp add: column_def)

lemma readableI:
  assumes "map fst osc = map date df" and "tail 5 osc = w" and "peak_first w \<noteq> None"
  shows "readable osc df"
  using assms by (simp add: readable_def)

lemma nth_tail_2:
  assumes "length xs = n" and "2 \<le> n"
  shows "xs ! (n - 2) = tail 2 xs ! 0" and "xs ! (n - 1) = tail 2 xs ! 1"
proof -
  from assms show "xs ! (n - 2) = tail 2 xs ! 0" by (simp add: tail_def)
  from assms have "Suc (n - 2) = n - 1" by simp
  with assms show "xs ! (n - 1) = tail 2 xs ! 1" by (simp add: tail_def)
qed

section \<open>Evaluation on sample tables\<close>

text \<open>
  The sample tables are evaluated by rewriting with the definitions.
\<close>

lemma replicate_num: "replicate (numeral k) x = x # replicate (pred_numeral k) x"
  by (simp add: numeral_eq_Suc)

lemma sum_upt: "sum f {m..<n} = sum_list (map f [m..<n])"
  by (simp add: interv_sum_list_conv_sum_set_nat)

lemmas sample_simps =
  sum_upt
  quotes_def column_def tail_def upt_rec replicate_num steady_market_def rising_market_def
  dip_and_recover_def double_top_def collapse_def late_rally_def spike_def indicator_table_def
  sample_market_def spec_ema_def ewm_span_def ewm_mean_def spec_rsi_def rsi_values_def
  gains_def losses_def rsi_of_def spec_obv_def constant_adx_def
  RSI_PERIOD_def EMA_SHORT_def EMA_LONG_def ATR_PERIOD_def ATR_MULTIPLIER_def
  MAX_LOSS_PER_ETF_def calculate_position_def latest_atr_def true_range_def shift1_def
  nanmean_def round_half_even_def tr_at_def finite_bar_def
  check_rsi_divergence_def check_obv_divergence_def check_ema_death_cross_def idxmax_def
  index_last_def iloc_back_def peak_first_def peak_last_def top_divergence_def readable_def
  defined_points_def fgt_def evaluate_trend_def total_score_def adx_score_def macd_score_def
  rsi_score_def py_min_def py_max_def calculate_technical_indicators_def cell_def
  series_sub_def usable_def result_line_def evaluate_multiple_etfs_def spec_score_def
  ranks_before_def

theorem position_none_iff_witness:
  "latest_atr (rising_market 14) = Fin 2 \<and> close (last (rising_market 14)) = Fin 23 \<and>
   (\<exists>r. calculate_position (\<lambda>c. Some (rising_market 14)) ''510300'' = Some r \<and>
        stop_loss_percent r = py_round 2 (Fin (ATR_MULTIPLIER * 2 / 23 * 100)))"
proof -
  have a: "latest_atr (rising_market 14) = Fin 2" by (simp add: sample_simps)
  have c: "close (last (rising_market 14)) = Fin 23" by (simp add: sample_simps)
  have l: "\<not> length (rising_market 14) < ATR_PERIOD" by (simp add: sample_simps)
  from position_none_iff[of "\<lambda>c. Some (rising_market 14)" "''510300''" "rising_market 14"] a c l
  show ?thesis by auto
qed

text \<open>
  The claim as stated omits the zero ATR: fourteen days without any price movement give
  a defined ATR of 0 and a positive close, and no recommendation.
\<close>

theorem position_none_iff_counterexample:
  "\<not> (length (steady_market 14 10 0) < ATR_PERIOD \<or> isna (latest_atr (steady_market 14 10 0)) \<or>
       fle (close (last (steady_market 14 10 0))) (Fin 0)) \<and>
   calculate_position (\<lambda>c. Some (steady_market 14 10 0)) ''510300'' = None"
  by (simp add: sample_simps)

theorem position_quantity_witness:
  "ATR_PERIOD \<le> length (steady_market 20 10 (1 / 8)) \<and>
   latest_atr (steady_market 20 10 (1 / 8)) = Fin (1 / 4) \<and>
   close (last (steady_market 20 10 (1 / 8))) = Fin 10 \<and>
   (\<exists>r. calculate_position (\<lambda>c. Some (steady_market 20 10 (1 / 8))) ''510300'' = Some r \<and>
        suggested_quantity r = 300 \<and> max_loss_amount r = Fin 150)"
proof -
  have l: "ATR_PERIOD \<le> length (steady_market 20 10 (1 / 8))" by (simp add: sample_simps)
  have a: "latest_atr (steady_market 20 10 (1 / 8)) = Fin (1 / 4)" by (simp add: sample_simps)
  have c: "close (last (steady_market 20 10 (1 / 8))) = Fin 10" by (simp add: sample_simps)
  have q: "(let q = \<lfloor>MAX_LOSS_PER_ETF / (ATR_MULTIPLIER * (1 / 4))\<rfloor> in max 100 (q - q mod 100)) = 300"
    by (simp add: sample_simps)
  have m: "py_round 2 (Fin (ATR_MULTIPLIER * (1 / 4) * of_int 300)) = Fin 150" by (simp add: sample_simps)
  from position_quantity[of "\<lambda>c. Some (steady_market 20 10 (1 / 8))" "''510300''", OF _ l a _ c]
  obtain r where "calculate_position (\<lambda>c. Some (steady_market 20 10 (1 / 8))) ''510300'' = Some r"
    and "suggested_quantity r = (let q = \<lfloor>MAX_LOSS_PER_ETF / (ATR_MULTIPLIER * (1 / 4))\<rfloor> in max 100 (q - q mod 100))"
    and "max_loss_amount r = py_round 2 (Fin (ATR_MULTIPLIER * (1 / 4) * of_int (suggested_quantity r)))"
    by auto
  then show ?thesis using l a c q m by auto
qed

text \<open>
  With a defined ATR of 0 and a positive close no quantity is recommended at all.
\<close>

theorem position_quantity_counterexample:
  "ATR_PERIOD \<le> length (steady_market 15 5 0) \<and>
   latest_atr (steady_market 15 5 0) = Fin 0 \<and>
   close (last (steady_market 15 5 0)) = Fin 5 \<and>
   calculate_position (\<lambda>c. Some (steady_market 15 5 0)) ''510300'' = None"
  by (simp add: sample_simps)

theorem atr_exact_window_witness:
  "length (rising_market 14) = ATR_PERIOD \<and>
   latest_atr (rising_market 14) = Fin (sum (tr_at (rising_market 14)) {1..<ATR_PERIOD} / 13) \<and>
   sum (tr_at (rising_market 14)) {1..<ATR_PERIOD} / 13 = 2 \<and>
   calculate_position (\<lambda>c. Some (rising_market 14)) ''510300'' =
     Some \<lparr>pos_etf_code = ''510300'', latest_price = Fin 23, atr_value = Fin 2,
            suggested_quantity = 100, stop_loss_percent = Fin (1739 / 100),
            max_loss_amount = Fin 400\<rparr> \<and>
   ATR_PERIOD < length (rising_market 15) \<and>
   latest_atr (rising_market 15) = Fin (sum (tr_at (rising_market 15)) {1..<15} / 14)"
proof -
  have f14: "\<forall>r\<in>set (rising_market 14). finite_bar r" by (simp add: sample_simps)
  have f15: "\<forall>r\<in>set (rising_market 15). finite_bar r" by (simp add: sample_simps)
  have l14: "length (rising_market 14) = ATR_PERIOD" by (simp add: sample_simps)
  have l15: "ATR_PERIOD < length (rising_market 15)" by (simp add: sample_simps)
  have n15: "length (rising_market 15) - ATR_PERIOD = 1" "length (rising_market 15) = 15" by (simp_all add: sample_simps)
  have s: "sum (tr_at (rising_market 14)) {1..<ATR_PERIOD} / 13 = 2" by (simp add: sample_simps)
  have r: "calculate_position (\<lambda>c. Some (rising_market 14)) ''510300'' =
     Some \<lparr>pos_etf_code = ''510300'', latest_price = Fin 23, atr_value = Fin 2,
            suggested_quantity = 100, stop_loss_percent = Fin (1739 / 100),
            max_loss_amount = Fin 400\<rparr>" by (simp add: sample_simps)
  from atr_exact_window[of "\<lambda>c. Some (rising_market 14)" "''510300''" "rising_market 14", OF _ f14]
       atr_exact_window[of "\<lambda>c. Some (rising_market 15)" "''510300''" "rising_market 15", OF _ f15]
       l14 l15 n15 s r
  show ?thesis by simp
qed

text \<open>
  Not every table of fourteen rows yields a recommendation, and not every one averages
  13 true ranges: fourteen days without any price movement have an ATR of 0 and get
  \<open>None\<close>, and a missing high leaves only 12 defined true ranges.
\<close>

theorem atr_exact_window_counterexample:
  "length (steady_market 14 20 0) = ATR_PERIOD \<and>
   list_all finite_bar (steady_market 14 20 0) \<and>
   latest_atr (steady_market 14 20 0) = Fin 0 \<and>
   calculate_position (\<lambda>c. Some (steady_market 14 20 0)) ''510300'' = None \<and>
   length gapped_market = ATR_PERIOD \<and>
   length (finite_values (tail ATR_PERIOD (true_range gapped_market))) = 12"
  by (simp add: gapped_market_def sample_simps)

text \<open>
  Claim C1 fails on the script: the RSI part of the score has no upper clamp. With an
  ADX of 50, both MACD lines positive and an RSI of 86 the sub-scores are 100, 100 and
  120, and the reported composite score is 106.
\<close>

theorem trend_score_can_exceed_100:
  "evaluate_trend (Some (indicator_table 30 (Fin 50) (Fin 1) (Fin 1) (Fin 86))) ''510300'' =
     Some \<lparr>eval_etf_code = ''510300'', adx_value = Fin 50, macd_golden_cross = True,
            rsi_value = Fin 86, trend_score = Fin 106\<rparr>"
  by (simp add: sample_simps)

text \<open>
  Claim C9 fails on the script for a download that succeeds with a table of no rows:
  printing the table's date range raises before the length is checked, the batch ends
  with that exception, and the usable instrument after it is never evaluated.
\<close>

theorem empty_table_aborts_batch:
  "sample_market ''511010'' = Some [] \<and> usable sample_market ''510300'' \<and>
   evaluate_multiple_etfs sample_market (constant_adx 25) spec_rsi [''511010'', ''510300''] =
     Inl IndexError"
  by (simp add: sample_simps)

theorem trend_score_formula_witness:
  "(\<exists>ev. evaluate_trend (Some (indicator_table 30 (Fin 25) (Fin 1) (Fin 1) (Fin 65))) ''510300'' =
           Some ev \<and> trend_score ev = Fin 65) \<and>
   total_score (Fin 25) True (Fin 65) = Fin 65 \<and>
   evaluate_trend (Some (indicator_table 29 (Fin 25) (Fin 1) (Fin 1) (Fin 65))) ''510300'' = None \<and>
   evaluate_trend (calculate_technical_indicators (constant_adx 25) spec_rsi
     (Some (steady_market 30 10 1))) ''510300'' \<noteq> None \<and>
   calculate_technical_indicators (constant_adx 25) spec_rsi (Some (steady_market 5 10 1)) = None"
proof -
  let ?rows = "indicator_table 30 (Fin 25) (Fin 1) (Fin 1) (Fin 65)"
  let ?few = "indicator_table 29 (Fin 25) (Fin 1) (Fin 1) (Fin 65)"
  have l: "30 \<le> length ?rows" "length ?few < 30" "30 \<le> length (steady_market 30 10 1)"
    "length (steady_market 5 10 1) < 30"
    by (simp_all add: indicator_table_def steady_market_def)
  have v: "ADX (last ?rows) = Fin 25" "MACD_DIF (last ?rows) = Fin 1"
    "MACD_DEA (last ?rows) = Fin 1" "RSI (last ?rows) = Fin 65" by (simp_all add: sample_simps)
  have s: "spec_score 25 1 1 65 = 65" by (simp add: sample_simps)
  have r: "py_round 1 (Fin 65) = Fin 65" by (simp add: sample_simps)
  from trend_score_formula[of ?rows 25 1 1 65 "''510300''" "steady_market 30 10 1"
         "constant_adx 25" spec_rsi]
       trend_score_formula[of ?few 25 1 1 65 "''510300''" "steady_market 5 10 1"
         "constant_adx 25" spec_rsi] l v s r
  show ?thesis by (simp del: py_round.simps)
qed

theorem batch_result_witness:
  "\<exists>out. evaluate_multiple_etfs sample_market (constant_adx 25) spec_rsi
            [''510300'', ''159915'', ''588000'', ''510500''] = Inr (Some out) \<and>
         mset (map eval_etf_code out) = {#''510300'', ''510500''#} \<and>
         sorted_wrt (\<lambda>x y. ranks_before (trend_score x) (trend_score y)) out"
proof -
  let ?codes = "[''510300'', ''159915'', ''588000'', ''510500'']"
  have ne: "\<forall>c\<in>set ?codes. sample_market c \<noteq> Some []" by (simp add: sample_simps)
  have f: "filter (usable sample_market) ?codes = [''510300'', ''510500'']" by (simp add: sample_simps)
  from batch_result[of ?codes sample_market "constant_adx 25" spec_rsi, OF ne]
  obtain results where
    c: "map eval_etf_code results = filter (usable sample_market) ?codes" and
    e: "evaluate_multiple_etfs sample_market (constant_adx 25) spec_rsi ?codes =
          Inr (if results = [] then None else Some (sort_values_desc results))" and
    m: "mset (sort_values_desc results) = mset results" and
    o: "sorted_wrt (\<lambda>x y. ranks_before (trend_score x) (trend_score y))
          (sort_values_desc results)"
    by blast
  from c f have n: "results \<noteq> []" by auto
  have "mset (map eval_etf_code (sort_values_desc results)) = mset (map eval_etf_code results)"
    using m by (metis mset_map)
  with c f have "mset (map eval_etf_code (sort_values_desc results)) = {#''510300'', ''510500''#}"
    by simp
  with e n o show ?thesis by auto
qed

lemma dip16_close:
  "tail 5 (column close (dip_and_recover 16)) =
     [(14, Fin 15), (15, Fin 16), (16, Fin 15), (17, Fin 16), (18, Fin 17)]"
  by (simp add: sample_simps)

lemma dip16_rsi:
  "tail 5 (spec_rsi (column close (dip_and_recover 16)) RSI_PERIOD) =
     [(14, Fin 100), (15, Fin 100), (16, Fin (650 / 7)), (17, Fin (4575 / 49)),
      (18, Fin (64375 / 686))]"
  by (simp add: sample_simps)

lemma dip16_obv:
  "tail 5 (spec_obv (column close (dip_and_recover 16)) (column volume (dip_and_recover 16))) =
     [(14, Fin 14000), (15, Fin 15000), (16, Fin 12000), (17, Fin 13000), (18, Fin 14000)]"
  by (simp add: sample_simps)

lemma dip15_close:
  "tail 5 (column close (dip_and_recover 15)) =
     [(13, Fin 14), (14, Fin 15), (15, Fin 14), (16, Fin 15), (17, Fin 16)]"
  by (simp add: sample_simps)

lemma dip15_rsi:
  "tail 5 (spec_rsi (column close (dip_and_recover 15)) RSI_PERIOD) =
     [(13, NaN), (14, Fin 100), (15, Fin (650 / 7)), (16, Fin (4575 / 49)),
      (17, Fin (64375 / 686))]"
  by (simp add: sample_simps)

lemma dip15_obv:
  "tail 5 (spec_obv (column close (dip_and_recover 15)) (column volume (dip_and_recover 15))) =
     [(13, Fin 13000), (14, Fin 14000), (15, Fin 11000), (16, Fin 12000), (17, Fin 13000)]"
  by (simp add: sample_simps)

lemma dip6_close:
  "tail 5 (column close (dip_and_recover 6)) =
     [(4, Fin 5), (5, Fin 6), (6, Fin 5), (7, Fin 6), (8, Fin 7)]"
  by (simp add: sample_simps)

lemma dip6_obv:
  "tail 5 (spec_obv (column close (dip_and_recover 6)) (column volume (dip_and_recover 6))) =
     [(4, Fin 4000), (5, Fin 5000), (6, Fin 2000), (7, Fin 3000), (8, Fin 4000)]"
  by (simp add: sample_simps)




lemma collapse_short:
  "tail 2 (spec_ema (column close collapse) EMA_SHORT) =
     [(25, Fin (1320 / 13)), (26, Fin (16860 / 169))]"
  by (simp add: sample_simps)

lemma collapse_long:
  "tail 2 (spec_ema (column close collapse) EMA_LONG) =
     [(25, Fin (2720 / 27)), (26, Fin (72860 / 729))]"
  by (simp add: sample_simps)


lemma length_collapse: "length collapse = 27"
  by (simp add: collapse_def length_quotes)

lemma rsi_aligned: "map fst (spec_rsi (column close df) w) = map date df"
  by (simp add: map_fst_spec_rsi map_fst_column)

lemma obv_aligned: "map fst (spec_obv (column close df) (column volume df)) = map date df"
  by (simp add: map_fst_spec_obv map_fst_column length_column)



text \<open>
  Eighteen rows are at least \<open>max RSI_PERIOD 5\<close> and their last five show a divergence
  against the RSI, yet the RSI check answers false while the OBV check on the same
  table evaluates its window; nine rows are at least 5 and show a divergence against
  the OBV, yet the OBV check answers false.
\<close>

theorem divergence_minimum_length_counterexample:
  "max RSI_PERIOD 5 \<le> length (dip_and_recover 15) \<and>
   top_divergence peak_first (tail 5 (column close (dip_and_recover 15)))
     (tail 5 (spec_rsi (column close (dip_and_recover 15)) RSI_PERIOD)) \<and>
   check_rsi_divergence spec_rsi (dip_and_recover 15) = Inr False \<and>
   check_obv_divergence spec_obv (dip_and_recover 15) = Inr True \<and>
   5 \<le> length (dip_and_recover 6) \<and>
   top_divergence peak_first (tail 5 (column close (dip_and_recover 6)))
     (tail 5 (spec_obv (column close (dip_and_recover 6)) (column volume (dip_and_recover 6)))) \<and>
   check_obv_divergence spec_obv (dip_and_recover 6) = Inr False"
proof -
  let ?b = "dip_and_recover 15" and ?a = "dip_and_recover 6"
  have l: "max RSI_PERIOD 5 \<le> length ?b" "5 \<le> length ?a"
    by (simp_all add: length_dip_and_recover RSI_PERIOD_def)
  have t1: "top_divergence peak_first (tail 5 (column close ?b))
              (tail 5 (spec_rsi (column close ?b) RSI_PERIOD))"
    unfolding dip15_close dip15_rsi by (simp add: sample_simps)
  have c1: "check_rsi_divergence spec_rsi ?b = Inr False"
    by (simp add: check_rsi_divergence_def length_dip_and_recover RSI_PERIOD_def)
  have pc: "peak_first (tail 5 (column close ?b)) \<noteq> None"
    unfolding dip15_close by (simp add: sample_simps)
  have po: "peak_first (tail 5 (spec_obv (column close ?b) (column volume ?b))) \<noteq> None"
    unfolding dip15_obv by (simp add: sample_simps)
  have t2: "top_divergence peak_first (tail 5 (column close ?b))
              (tail 5 (spec_obv (column close ?b) (column volume ?b)))"
    unfolding dip15_close dip15_obv by (simp add: sample_simps)
  have c2: "check_obv_divergence spec_obv ?b = Inr True"
    using check_obv_divergence_eval[of ?b spec_obv, OF _ obv_aligned pc po] t2
    by (simp add: length_dip_and_recover)
  have t3: "top_divergence peak_first (tail 5 (column close ?a))
              (tail 5 (spec_obv (column close ?a) (column volume ?a)))"
    unfolding dip6_close dip6_obv by (simp add: sample_simps)
  have c3: "check_obv_divergence spec_obv ?a = Inr False"
    by (simp add: check_obv_divergence_def length_dip_and_recover)
  from l t1 c1 c2 t3 c3 show ?thesis by simp
qed

theorem divergence_minimum_length_witness:
  "length (dip_and_recover 6) < 10 \<and>
   check_rsi_divergence spec_rsi (dip_and_recover 6) = Inr False \<and>
   check_obv_divergence spec_obv (dip_and_recover 6) = Inr False \<and>
   10 \<le> length (dip_and_recover 15) \<and> length (dip_and_recover 15) < RSI_PERIOD + 5 \<and>
   check_rsi_divergence spec_rsi (dip_and_recover 15) = Inr False \<and>
   check_obv_divergence spec_obv (dip_and_recover 15) = Inr True \<and>
   RSI_PERIOD + 5 \<le> length (dip_and_recover 16) \<and>
   check_rsi_divergence spec_rsi (dip_and_recover 16) = Inr True \<and>
   check_obv_divergence spec_obv (dip_and_recover 16) = Inr True"
proof -
  let ?a = "dip_and_recover 6" and ?b = "dip_and_recover 15" and ?c = "dip_and_recover 16"
  have la: "length ?a < 10" "length ?a < RSI_PERIOD + 5"
    by (simp_all add: length_dip_and_recover RSI_PERIOD_def)
  have lb: "10 \<le> length ?b" "length ?b < RSI_PERIOD + 5"
    by (simp_all add: length_dip_and_recover RSI_PERIOD_def)
  have lc: "10 \<le> length ?c" "RSI_PERIOD + 5 \<le> length ?c"
    by (simp_all add: length_dip_and_recover RSI_PERIOD_def)
  have rb: "readable (column close ?b) ?b"
    "readable (spec_obv (column close ?b) (column volume ?b)) ?b"
    by (rule readableI[OF map_fst_column dip15_close], simp add: sample_simps)
       (rule readableI[OF obv_aligned dip15_obv], simp add: sample_simps)
  have rc: "readable (column close ?c) ?c"
    "readable (spec_rsi (column close ?c) RSI_PERIOD) ?c"
    "readable (spec_obv (column close ?c) (column volume ?c)) ?c"
    by (rule readableI[OF map_fst_column dip16_close], simp add: sample_simps)
       (rule readableI[OF rsi_aligned dip16_rsi], simp add: sample_simps,
        rule readableI[OF obv_aligned dip16_obv], simp add: sample_simps)
  have tb: "top_divergence peak_first (tail 5 (column close ?b))
              (tail 5 (spec_obv (column close ?b) (column volume ?b)))"
    unfolding dip15_close dip15_obv by (simp add: sample_simps)
  have tc: "top_divergence peak_first (tail 5 (column close ?c))
              (tail 5 (spec_rsi (column close ?c) RSI_PERIOD))"
    "top_divergence peak_first (tail 5 (column close ?c))
              (tail 5 (spec_obv (column close ?c) (column volume ?c)))"
    unfolding dip16_close dip16_rsi dip16_obv by (simp_all add: sample_simps)
  from divergence_minimum_length[of ?a spec_rsi spec_obv]
       divergence_minimum_length[of ?b spec_rsi spec_obv]
       divergence_minimum_length[of ?c spec_rsi spec_obv]
       la lb lc rb rc tb tc
  show ?thesis by simp
qed

theorem death_cross_flag_witness:
  "EMA_LONG + 1 \<le> length collapse \<and>
   check_ema_death_cross spec_ema collapse = Inr True \<and>
   check_ema_death_cross spec_ema late_rally = Inr False"
proof -
  have a: "length (spec_ema (column close collapse) EMA_SHORT) = length collapse"
    "length (spec_ema (column close collapse) EMA_LONG) = length collapse"
    by (simp_all add: length_spec_ema length_column)
  have l: "EMA_LONG + 1 \<le> length collapse" by (simp add: length_collapse EMA_LONG_def)
  have x: "fgt (snd (spec_ema (column close collapse) EMA_SHORT ! (length collapse - 2)))
               (snd (spec_ema (column close collapse) EMA_LONG ! (length collapse - 2)))"
       "flt (snd (spec_ema (column close collapse) EMA_SHORT ! (length collapse - 1)))
            (snd (spec_ema (column close collapse) EMA_LONG ! (length collapse - 1)))"
    unfolding nth_tail_2[OF a(1), unfolded length_collapse, simplified, folded length_collapse]
      nth_tail_2[OF a(2), unfolded length_collapse, simplified, folded length_collapse]
      collapse_short collapse_long
    by (simp_all add: sample_simps)
  let ?r = late_rally
  have b: "length (spec_ema (column close ?r) EMA_SHORT) = length ?r"
    "length (spec_ema (column close ?r) EMA_LONG) = length ?r"
    by (simp_all add: length_spec_ema length_column)
  have n: "\<forall>p\<in>set (zip (spec_ema (column close ?r) EMA_SHORT) (spec_ema (column close ?r) EMA_LONG)).
              \<not> flt (snd (fst p)) (snd (snd p))" by (simp add: sample_simps)
  from death_cross_flag[of spec_ema collapse, OF a] death_cross_flag[of spec_ema ?r, OF b] l x n
  show ?thesis by simp
qed

theorem death_cross_minimum_length_witness:
  "defined_points (ta_ema (column close spike) EMA_LONG) = 0 \<and>
   check_ema_death_cross ta_ema spike = Inr False \<and>
   defined_points (ta_ema (column close collapse) EMA_SHORT) = 16 \<and>
   defined_points (ta_ema (column close collapse) EMA_LONG) = 2 \<and>
   check_ema_death_cross ta_ema collapse = Inr True"
proof -
  have gs: "window_gated ta_ema spike EMA_SHORT" "window_gated ta_ema spike EMA_LONG"
    by (simp_all add: window_gated_def ta_ema_def sample_simps)
  have gc: "window_gated ta_ema collapse EMA_SHORT" "window_gated ta_ema collapse EMA_LONG"
    by (simp_all add: window_gated_def ta_ema_def sample_simps)
  have ds: "defined_points (ta_ema (column close spike) EMA_LONG) = 0"
    using window_gated_defined_points[OF gs(2)] by (simp add: spike_def length_quotes EMA_LONG_def)
  have dc: "defined_points (ta_ema (column close collapse) EMA_SHORT) = 16"
    "defined_points (ta_ema (column close collapse) EMA_LONG) = 2"
    using window_gated_defined_points[OF gc(1)] window_gated_defined_points[OF gc(2)]
    by (simp_all add: length_collapse EMA_SHORT_def EMA_LONG_def)
  have x: "fgt (snd (ta_ema (column close collapse) EMA_SHORT ! (length collapse - 2)))
               (snd (ta_ema (column close collapse) EMA_LONG ! (length collapse - 2)))"
          "flt (snd (ta_ema (column close collapse) EMA_SHORT ! (length collapse - 1)))
               (snd (ta_ema (column close collapse) EMA_LONG ! (length collapse - 1)))"
    by (simp_all add: ta_ema_def sample_simps)
  from death_cross_minimum_length[OF gs] death_cross_minimum_length[OF gc] ds dc x
  show ?thesis by simp
qed

theorem total_score_range_witness:
  "total_score (Fin 60) True (Fin 100) = Fin 120 \<and> total_score (Fin 60) True (Fin 80) = Fin 100"
proof -
  from total_score_range[of 60 100 True] total_score_range[of 60 80 True]
  obtain s t where "total_score (Fin 60) True (Fin 100) = Fin s" "s \<le> 120"
    and "total_score (Fin 60) True (Fin 80) = Fin t" "t \<le> 100"
    by auto
  moreover have "total_score (Fin 60) True (Fin 100) = Fin 120"
    by (simp add: total_score_def adx_score_finite rsi_score_finite macd_score_def)
  moreover have "total_score (Fin 60) True (Fin 80) = Fin 100"
    by (simp add: total_score_def adx_score_finite rsi_score_finite macd_score_def)
  ultimately show ?thesis by simp
qed

end
